theory Spec2Isabelle
  imports Main "HOL-Library.Word" "HOL-Library.Sublist"
begin

section \<open>Mount option policy of udiskslinuxmountoptions.c\<close>

text \<open>
  A shallow embedding of \<^verbatim>\<open>src/udiskslinuxmountoptions.c\<close>: the policy record and
  its two merge operations, the resolver over the three policy origins, the allow-list
  evaluator, the synthesis of default options and the assembly of the validated option
  string. C strings are \<open>string\<close> (byte lists without the terminating NUL), a
  \<^verbatim>\<open>gchar **\<close> is a \<open>string list option\<close> whose \<open>None\<close> is the NULL pointer, and a
  \<^verbatim>\<open>GHashTable\<close> keyed by strings is an association list in the order in which
  \<^verbatim>\<open>g_hash_table_get_keys\<close> lists it, looked up with \<open>map_of\<close>.
\<close>

subsection \<open>Data model\<close>

type_synonym strv = "string list option"
type_synonym uid_t = "32 word"
type_synonym gid_t = "32 word"

record FSMountOptions =
  defaults :: strv
  allow :: strv
  allow_uid_self :: strv
  allow_gid_self :: strv

text \<open>\<^verbatim>\<open>g_malloc0 (sizeof (FSMountOptions))\<close>: every member is NULL.\<close>

definition fs_mount_options_zero :: FSMountOptions where
  "fs_mount_options_zero =
     \<lparr>defaults = None, allow = None, allow_uid_self = None, allow_gid_self = None\<rparr>"

type_synonym fs_table = "(string \<times> FSMountOptions) list"
type_synonym opts_table = "(string \<times> fs_table) list"

text \<open>
  A block object is never NULL where this code runs (its device is dereferenced without a
  check), so the test \<^verbatim>\<open>if (block)\<close> always succeeds. The udev device behind a block
  object, which may be NULL, carries the table that
  \<^verbatim>\<open>mount_options_get_from_udev\<close> builds from its \<^verbatim>\<open>UDISKS_MOUNT_OPTIONS_*\<close>
  properties, and its \<^verbatim>\<open>UDISKS_FILESYSTEM_SHARED\<close> property.
\<close>

record UdevDevice =
  udev_mount_options :: fs_table
  filesystem_shared :: bool

record UDisksBlock =
  device :: string
  symlinks :: "string list"
  udev_device :: "UdevDevice option"

text \<open>
  What the daemon holds when a mount request arrives: the built-in table (the object data
  \<^verbatim>\<open>"mount-options"\<close>) and what \<^verbatim>\<open>mount_options_parse_config_file\<close> returns for
  \<^verbatim>\<open>mount_options.conf\<close> (\<open>None\<close> when the file is absent, unreadable or without
  sections).
\<close>

record UDisksDaemon =
  builtin_opts :: "opts_table option"
  config_file_opts :: "opts_table option"

text \<open>
  The library calls the code relies on and this file does not define:
  \<^verbatim>\<open>udisks_daemon_util_get_user_info\<close> (primary gid and user name of a uid),
  \<^verbatim>\<open>getgrouplist\<close> (\<open>None\<close> when it returns a negative value because the groups do not
  fit the buffer of the given size) and \<^verbatim>\<open>g_utf8_validate\<close>.
\<close>

record sys =
  get_user_info :: "uid_t \<Rightarrow> (gid_t \<times> string) option"
  getgrouplist :: "string \<Rightarrow> gid_t \<Rightarrow> nat \<Rightarrow> gid_t list option"
  g_utf8_validate :: "string \<Rightarrow> bool"

datatype UDisksError =
  UDISKS_ERROR_FAILED | UDISKS_ERROR_NOT_SUPPORTED | UDISKS_ERROR_OPTION_NOT_PERMITTED

text \<open>A \<^verbatim>\<open>GError\<close> of the domain \<^verbatim>\<open>UDISKS_ERROR\<close>: its code and its message.\<close>

type_synonym GError = "UDisksError \<times> string"

subsection \<open>String helpers of libc and GLib\<close>

definition g_strv_contains :: "strv \<Rightarrow> string \<Rightarrow> bool" where
  "g_strv_contains strv s = (case strv of None \<Rightarrow> False | Some l \<Rightarrow> s \<in> set l)"

text \<open>\<^verbatim>\<open>fsmo && fsmo->m\<close>: the member of a record that may itself be NULL.\<close>

definition fsmo_member :: "(FSMountOptions \<Rightarrow> strv) \<Rightarrow> FSMountOptions option \<Rightarrow> strv" where
  "fsmo_member m fsmo = (case fsmo of None \<Rightarrow> None | Some r \<Rightarrow> m r)"

text \<open>
  \<^verbatim>\<open>strchr (option, '=')\<close> followed by the split the code makes at the position found:
  the \<^verbatim>\<open>opt_len\<close> bytes before the first \<^verbatim>\<open>=\<close> and the string after it.
\<close>

definition strchr_eq :: "string \<Rightarrow> (string \<times> string) option" where
  "strchr_eq s =
     (if CHR ''='' \<in> set s
      then Some (takeWhile (\<lambda>c. c \<noteq> CHR ''='') s, tl (dropWhile (\<lambda>c. c \<noteq> CHR ''='') s))
      else None)"

text \<open>
  \<^verbatim>\<open>strncmp (s1, s2, n) == 0\<close>: at most \<open>n\<close> bytes are compared, and the comparison
  ends where both strings end.
\<close>

fun strncmp_eq :: "string \<Rightarrow> string \<Rightarrow> nat \<Rightarrow> bool" where
  "strncmp_eq s1 s2 0 = True"
| "strncmp_eq [] [] (Suc n) = True"
| "strncmp_eq (x # xs) (y # ys) (Suc n) = (x = y \<and> strncmp_eq xs ys n)"
| "strncmp_eq s1 s2 (Suc n) = False"

text \<open>\<^verbatim>\<open>g_strsplit (s, ",", -1)\<close>: the empty string gives the empty vector.\<close>

fun split_commas :: "string \<Rightarrow> string list" where
  "split_commas [] = [[]]"
| "split_commas (c # cs) =
     (if c = CHR '','' then [] # split_commas cs
      else (case split_commas cs of [] \<Rightarrow> [[c]] | t # ts \<Rightarrow> (c # t) # ts))"

definition g_strsplit_comma :: "string \<Rightarrow> string list" where
  "g_strsplit_comma s = (if s = [] then [] else split_commas s)"

text \<open>\<^verbatim>\<open>g_ascii_strdown\<close>.\<close>

definition g_ascii_tolower :: "char \<Rightarrow> char" where
  "g_ascii_tolower c =
     (if (65::nat) \<le> of_char c \<and> of_char c \<le> (90::nat) then char_of (of_char c + (32::nat)) else c)"

definition g_ascii_strdown :: "string \<Rightarrow> string" where
  "g_ascii_strdown s = map g_ascii_tolower s"

text \<open>\<^verbatim>\<open>g_strdup_printf ("%u", n)\<close>.\<close>

fun decimal :: "nat \<Rightarrow> string" where
  "decimal n =
     (if n < 10 then [''0123456789'' ! n]
      else decimal (n div 10) @ [''0123456789'' ! (n mod 10)])"

declare decimal.simps [simp del]

text \<open>
  \<^verbatim>\<open>strtol (nptr, &endp, 10)\<close> of the C library, with the 64-bit \<^verbatim>\<open>long\<close> of
  the LP64 Linux targets: white space is skipped, one sign is accepted, the digits that
  follow are converted and the result is clamped to the range of \<^verbatim>\<open>long\<close>. The second
  component is the string \<^verbatim>\<open>endp\<close> points to; without any digit it is the whole input.
\<close>

definition isspace :: "char \<Rightarrow> bool" where
  "isspace c = (c \<in> set [CHR '' '', CHR 0x09, CHR 0x0A, CHR 0x0B, CHR 0x0C, CHR 0x0D])"

definition isdigit :: "char \<Rightarrow> bool" where
  "isdigit c = (c \<in> set ''0123456789'')"

definition digits_value :: "string \<Rightarrow> int" where
  "digits_value ds = foldl (\<lambda>acc c. 10 * acc + (of_char c - 48)) 0 ds"

definition LONG_MAX :: int where
  "LONG_MAX = 2 ^ 63 - 1"

definition LONG_MIN :: int where
  "LONG_MIN = - (2 ^ 63)"

definition strtol :: "string \<Rightarrow> int \<times> string" where
  "strtol nptr =
     (let s = dropWhile isspace nptr;
          neg = (s \<noteq> [] \<and> hd s = CHR ''-'');
          t = (if s \<noteq> [] \<and> (hd s = CHR ''-'' \<or> hd s = CHR ''+'') then tl s else s);
          ds = takeWhile isdigit t
      in if ds = [] then (0, nptr)
         else (let n = digits_value ds;
                   v = (if neg then - n else n)
               in (max LONG_MIN (min LONG_MAX v), dropWhile isdigit t)))"

subsection \<open>The two merge operations on policy records\<close>

definition strv_append_unique :: "strv \<Rightarrow> strv \<Rightarrow> strv" where
  "strv_append_unique src dest =
     (case src of
        None \<Rightarrow> dest
      | Some s \<Rightarrow>
          if length s = 0 then dest
          else (case dest of
                  None \<Rightarrow> Some s
                | Some d \<Rightarrow>
                    (let l = filter (\<lambda>x. x \<notin> set d) s
                     in if length l > 0 then Some (d @ l) else Some d)))"

definition append_fs_mount_options ::
  "FSMountOptions option \<Rightarrow> FSMountOptions \<Rightarrow> FSMountOptions" where
  "append_fs_mount_options src dest =
     (case src of
        None \<Rightarrow> dest
      | Some s \<Rightarrow>
          \<lparr>defaults = strv_append_unique (defaults s) (defaults dest),
           allow = strv_append_unique (allow s) (allow dest),
           allow_uid_self = strv_append_unique (allow_uid_self s) (allow_uid_self dest),
           allow_gid_self = strv_append_unique (allow_gid_self s) (allow_gid_self dest)\<rparr>)"

text \<open>The macro \<^verbatim>\<open>OVERRIDE_MEMBER\<close>.\<close>

definition override_member :: "strv \<Rightarrow> strv \<Rightarrow> strv" where
  "override_member src_m dest_m = (case src_m of None \<Rightarrow> dest_m | Some l \<Rightarrow> Some l)"

definition override_fs_mount_options ::
  "FSMountOptions option \<Rightarrow> FSMountOptions \<Rightarrow> FSMountOptions" where
  "override_fs_mount_options src dest =
     (case src of
        None \<Rightarrow> dest
      | Some s \<Rightarrow>
          \<lparr>defaults = override_member (defaults s) (defaults dest),
           allow = override_member (allow s) (allow dest),
           allow_uid_self = override_member (allow_uid_self s) (allow_uid_self dest),
           allow_gid_self = override_member (allow_gid_self s) (allow_gid_self dest)\<rparr>)"

subsection \<open>The resolver\<close>

definition MOUNT_OPTIONS_CONFIG_GROUP_DEFAULTS :: string where
  "MOUNT_OPTIONS_CONFIG_GROUP_DEFAULTS = ''defaults''"

text \<open>
  The four statements the code repeats for the general section, for the section of the
  block device and for the udev table: the record under \<^verbatim>\<open>defaults\<close> overrides
  \<^verbatim>\<open>fsmo_any\<close>, the record under the filesystem type overrides \<^verbatim>\<open>fsmo\<close>, and
  \<^verbatim>\<open>changed\<close> records whether either exists. The state is
  \<open>(changed, fsmo, fsmo_any)\<close>.
\<close>

definition override_from_table ::
  "fs_table \<Rightarrow> string option \<Rightarrow> bool \<times> FSMountOptions \<times> FSMountOptions
     \<Rightarrow> bool \<times> FSMountOptions \<times> FSMountOptions" where
  "override_from_table t fstype st =
     (case st of (changed, fsmo, fsmo_any) \<Rightarrow>
        (let o1 = map_of t MOUNT_OPTIONS_CONFIG_GROUP_DEFAULTS;
             fsmo_any' = override_fs_mount_options o1 fsmo_any;
             changed1 = (changed \<or> o1 \<noteq> None);
             o2 = (case fstype of None \<Rightarrow> None | Some ft \<Rightarrow> map_of t ft);
             fsmo' = override_fs_mount_options o2 fsmo;
             changed2 = (changed1 \<or> o2 \<noteq> None)
         in (changed2, fsmo', fsmo_any')))"

text \<open>
  The loop over the keys of the table: the first key other than \<^verbatim>\<open>defaults\<close> that is
  the device file or one of its symlinks selects the section of the block device.
\<close>

definition find_block_options :: "opts_table \<Rightarrow> UDisksBlock \<Rightarrow> fs_table option" where
  "find_block_options opts block =
     (case find (\<lambda>k. k \<noteq> MOUNT_OPTIONS_CONFIG_GROUP_DEFAULTS \<and>
                       (k = device block \<or> k \<in> set (symlinks block))) (map fst opts) of
        None \<Rightarrow> None
      | Some k \<Rightarrow> map_of opts k)"

definition compute_block_level_mount_options ::
  "opts_table \<Rightarrow> UDisksBlock \<Rightarrow> string option \<Rightarrow> FSMountOptions \<times> FSMountOptions
     \<Rightarrow> bool \<times> FSMountOptions \<times> FSMountOptions" where
  "compute_block_level_mount_options opts block fstype accs =
     (case accs of (fsmo, fsmo_any) \<Rightarrow>
        (let st0 = (False, fsmo, fsmo_any);
             st1 = (case map_of opts MOUNT_OPTIONS_CONFIG_GROUP_DEFAULTS of
                      None \<Rightarrow> st0
                    | Some general_options \<Rightarrow> override_from_table general_options fstype st0)
         in (case find_block_options opts block of
               None \<Rightarrow> st1
             | Some block_options \<Rightarrow> override_from_table block_options fstype st1)))"

text \<open>
  The body of \<^verbatim>\<open>compute_mount_options_for_fs_type\<close> up to the merge: the two
  accumulators \<open>(fsmo, fsmo_any)\<close> after the built-in table, the configuration file and
  the udev properties have been applied in this order. Without a built-in table the
  function returns NULL at once.
\<close>

definition apply_origins ::
  "UDisksDaemon \<Rightarrow> UDisksBlock \<Rightarrow> string option \<Rightarrow> (FSMountOptions \<times> FSMountOptions) option" where
  "apply_origins daemon block fstype =
     (case builtin_opts daemon of
        None \<Rightarrow> None
      | Some builtin \<Rightarrow>
          (let st1 = compute_block_level_mount_options builtin block fstype
                       (fs_mount_options_zero, fs_mount_options_zero);
               st2 = (case config_file_opts daemon of
                        None \<Rightarrow> (False, snd st1)
                      | Some overrides \<Rightarrow>
                          compute_block_level_mount_options overrides block fstype (snd st1));
               st3 = (case udev_device block of
                        None \<Rightarrow> st2
                      | Some d \<Rightarrow> override_from_table (udev_mount_options d) fstype st2)
           in Some (snd st3)))"

definition compute_mount_options_for_fs_type ::
  "UDisksDaemon \<Rightarrow> UDisksBlock \<Rightarrow> string option \<Rightarrow> FSMountOptions option" where
  "compute_mount_options_for_fs_type daemon block fstype =
     (case apply_origins daemon block fstype of
        None \<Rightarrow> None
      | Some (fsmo, fsmo_any) \<Rightarrow> Some (append_fs_mount_options (Some fsmo_any) fsmo))"

subsection \<open>Parsing a policy value\<close>

text \<open>
  One call of libmount's \<^verbatim>\<open>mnt_optstr_next_option\<close>, which this file does not define:
  it returns 0 with a name, a value that may be NULL and the advanced position, a positive
  number at the end of the string, or a negative number at a syntax error.
\<close>

datatype next_option = Next_option string "string option" string | End_of_optstr | Parse_error

text \<open>
  The loop of \<^verbatim>\<open>parse_mount_options_string\<close> over the tokenizer \<open>next\<close>. The outer
  \<open>None\<close> is a loop that never ends; the value is \<open>None\<close> where the function returns
  NULL after a syntax error.
\<close>

partial_function (option) parse_loop ::
  "(string \<Rightarrow> next_option) \<Rightarrow> string \<Rightarrow> string list \<Rightarrow> strv option" where
  "parse_loop next optstr opts =
     (case next optstr of
        Next_option name value rest \<Rightarrow>
          parse_loop next rest
            (opts @ [case value of None \<Rightarrow> name | Some v \<Rightarrow> name @ ''='' @ v])
      | End_of_optstr \<Rightarrow> Some (Some opts)
      | Parse_error \<Rightarrow> Some None)"

definition parse_mount_options_string ::
  "(string \<Rightarrow> next_option) \<Rightarrow> string option \<Rightarrow> strv option" where
  "parse_mount_options_string next str =
     (case str of None \<Rightarrow> Some None | Some s \<Rightarrow> parse_loop next s [])"

subsection \<open>The allow-list evaluator\<close>

definition is_uid_in_gid :: "sys \<Rightarrow> uid_t \<Rightarrow> gid_t \<Rightarrow> bool" where
  "is_uid_in_gid sys uid gid =
     (case get_user_info sys uid of
        None \<Rightarrow> False
      | Some (primary_gid, user_name) \<Rightarrow>
          if primary_gid = gid then True
          else (case getgrouplist sys user_name primary_gid 128 of
                  None \<Rightarrow> False
                | Some supplementary_groups \<Rightarrow> gid \<in> set supplementary_groups))"

definition VARIANT_NULL_STRING :: string where
  "VARIANT_NULL_STRING = [CHR 0x01]"

definition is_mount_option_allowed ::
  "sys \<Rightarrow> FSMountOptions option \<Rightarrow> string \<Rightarrow> string option \<Rightarrow> uid_t \<Rightarrow> bool" where
  "is_mount_option_allowed sys fsmo option value caller_uid =
     (if (case value of
            None \<Rightarrow> False
          | Some v \<Rightarrow> length v > 0 \<and> g_strv_contains (fsmo_member allow fsmo) (option @ ''='' @ v))
      then True
      else if g_strv_contains (fsmo_member allow_uid_self fsmo) option then
        (case value of
           None \<Rightarrow> False
         | Some v \<Rightarrow>
             if length v = 0 then False
             else (case strtol v of (n, endp) \<Rightarrow>
                     if endp \<noteq> [] then False
                     else (word_of_int n :: uid_t) = caller_uid))
      else if g_strv_contains (fsmo_member allow_gid_self fsmo) option then
        (case value of
           None \<Rightarrow> False
         | Some v \<Rightarrow>
             if length v = 0 then False
             else (case strtol v of (n, endp) \<Rightarrow>
                     if endp \<noteq> [] then False
                     else is_uid_in_gid sys caller_uid (word_of_int n :: gid_t)))
      else if g_strv_contains (fsmo_member allow fsmo) (option @ ''='') then True
      else if g_strv_contains (fsmo_member allow fsmo) option then True
      else if prefix ''x-'' option then True
      else False)"

subsection \<open>Synthesis of the candidate options\<close>

text \<open>
  \<^verbatim>\<open>MAX (shared_mode[1] - 2, '4')\<close> stored back into a \<^verbatim>\<open>gchar\<close>: the byte is read
  as the signed \<^verbatim>\<open>char\<close> of the x86 targets and the arithmetic is on \<^verbatim>\<open>int\<close>.
\<close>

definition char_to_int :: "char \<Rightarrow> int" where
  "char_to_int c = (if (of_char c :: int) < 128 then of_char c else of_char c - 256)"

definition shared_mode_digit :: "char \<Rightarrow> char" where
  "shared_mode_digit c =
     (if char_to_int c - 2 > char_to_int CHR ''4''
      then char_of (char_to_int c - 2) else CHR ''4'')"

text \<open>
  One turn of the loop over \<^verbatim>\<open>fsmo->defaults\<close>: the entries added to the builder for
  one default token. The \<^verbatim>\<open>mode\<close> branch writes the bytes 2 and 3 of a copy of the
  value; on a value shorter than four bytes these writes overwrite the terminating NUL or
  leave the allocation, the behaviour is undefined and the result is \<open>None\<close>.
\<close>

definition default_option ::
  "sys \<Rightarrow> FSMountOptions \<Rightarrow> uid_t \<Rightarrow> bool \<Rightarrow> string \<Rightarrow> (string \<times> string) list option" where
  "default_option sys fsmo caller_uid shared_fs option =
     (case strchr_eq option of
        None \<Rightarrow> Some [(option, VARIANT_NULL_STRING)]
      | Some (name, value) \<Rightarrow>
          if length value > 0 \<and> allow fsmo \<noteq> None \<and> g_strv_contains (allow fsmo) option
          then Some [(name, value)]
          else if strncmp_eq option ''uid'' (length name)
          then Some [(''uid'', decimal (unat caller_uid))]
          else if strncmp_eq option ''gid'' (length name)
          then (case get_user_info sys caller_uid of
                  None \<Rightarrow> Some []
                | Some (gid, user_name) \<Rightarrow> Some [(''gid'', decimal (unat gid))])
          else if shared_fs \<and> strncmp_eq option ''mode'' (length name)
          then (if length value \<ge> 4
                then Some [(''mode'',
                            value[2 := shared_mode_digit (value ! 1),
                                  3 := shared_mode_digit (value ! 1)])]
                else None)
          else if shared_fs \<and> strncmp_eq option ''dmode'' (length name)
          then Some [(''dmode'', ''0555'')]
          else Some [(name, value)])"

fun default_options ::
  "sys \<Rightarrow> FSMountOptions \<Rightarrow> uid_t \<Rightarrow> bool \<Rightarrow> string list \<Rightarrow> (string \<times> string) list option" where
  "default_options sys fsmo caller_uid shared_fs [] = Some []"
| "default_options sys fsmo caller_uid shared_fs (option # rest) =
     (case default_option sys fsmo caller_uid shared_fs option of
        None \<Rightarrow> None
      | Some es \<Rightarrow>
          (case default_options sys fsmo caller_uid shared_fs rest of
             None \<Rightarrow> None
           | Some es' \<Rightarrow> Some (es @ es')))"

text \<open>One turn of the loop over the options the caller gave, split at the commas.\<close>

definition given_option :: "string \<Rightarrow> string \<times> string" where
  "given_option option =
     (case strchr_eq option of
        None \<Rightarrow> (option, VARIANT_NULL_STRING)
      | Some (name, value) \<Rightarrow> (name, value))"

text \<open>
  \<open>given_options\<close> is the entry \<^verbatim>\<open>"options"\<close> of the dictionary the caller sent,
  \<open>None\<close> when the dictionary has no such entry.
\<close>

definition prepend_default_mount_options ::
  "sys \<Rightarrow> FSMountOptions option \<Rightarrow> uid_t \<Rightarrow> string option \<Rightarrow> bool
     \<Rightarrow> (string \<times> string) list option" where
  "prepend_default_mount_options sys fsmo caller_uid given_options shared_fs =
     (case (case fsmo of
              None \<Rightarrow> Some []
            | Some r \<Rightarrow>
                (case defaults r of
                   None \<Rightarrow> Some []
                 | Some ds \<Rightarrow> default_options sys r caller_uid shared_fs ds)) of
        None \<Rightarrow> None
      | Some builder \<Rightarrow>
          (case given_options of
             None \<Rightarrow> Some builder
           | Some option_string \<Rightarrow>
               Some (builder @ map given_option (g_strsplit_comma option_string))))"

subsection \<open>Validation and assembly\<close>

definition apostrophe :: string where
  "apostrophe = [CHR 0x27]"

definition malformed_option_error :: "string \<Rightarrow> GError" where
  "malformed_option_error key =
     (UDISKS_ERROR_OPTION_NOT_PERMITTED, ''Malformed mount option `'' @ key @ apostrophe)"

definition not_allowed_error :: "string \<Rightarrow> string option \<Rightarrow> GError" where
  "not_allowed_error key value =
     (case value of
        None \<Rightarrow>
          (UDISKS_ERROR_OPTION_NOT_PERMITTED,
           ''Mount option `'' @ key @ apostrophe @ '' is not allowed'')
      | Some v \<Rightarrow>
          (UDISKS_ERROR_OPTION_NOT_PERMITTED,
           ''Mount option `'' @ key @ ''='' @ v @ apostrophe @ '' is not allowed''))"

text \<open>
  \<^verbatim>\<open>if (g_str_equal (value, VARIANT_NULL_STRING)) value = NULL;\<close>
\<close>

definition variant_value :: "string \<Rightarrow> string option" where
  "variant_value value0 = (if value0 = VARIANT_NULL_STRING then None else Some value0)"

text \<open>What the loop appends after the comma: the key, or \<^verbatim>\<open>"%s=%s"\<close>.\<close>

definition option_text :: "string \<Rightarrow> string option \<Rightarrow> string" where
  "option_text key value = (case value of None \<Rightarrow> key | Some v \<Rightarrow> key @ ''='' @ v)"

text \<open>
  The loop over the entries of \<^verbatim>\<open>options_to_use\<close>, with the string built so far:
  \<open>Inl\<close> is the error set before \<^verbatim>\<open>goto out\<close>.
\<close>

fun validate_options ::
  "sys \<Rightarrow> FSMountOptions option \<Rightarrow> uid_t \<Rightarrow> (string \<times> string) list \<Rightarrow> string
     \<Rightarrow> GError + string" where
  "validate_options sys fsmo caller_uid [] str = Inr str"
| "validate_options sys fsmo caller_uid ((key, value0) # rest) str =
     (let value = variant_value value0
      in if CHR '','' \<in> set key then Inl (malformed_option_error key)
         else if \<not> is_mount_option_allowed sys fsmo key value caller_uid
         then Inl (not_allowed_error key value)
         else validate_options sys fsmo caller_uid rest (str @ '','' @ option_text key value))"

text \<open>
  The result is \<open>None\<close> where the call does not return: after undefined behaviour in the
  synthesis, or when the final \<^verbatim>\<open>g_assert\<close> on the UTF-8 validity of the string fails.
\<close>

definition udisks_linux_calculate_mount_options ::
  "sys \<Rightarrow> UDisksDaemon \<Rightarrow> UDisksBlock \<Rightarrow> uid_t \<Rightarrow> string option \<Rightarrow> string option
     \<Rightarrow> (GError + string) option" where
  "udisks_linux_calculate_mount_options sys daemon block caller_uid fs_type options =
     (let shared_fs = (case udev_device block of None \<Rightarrow> False | Some d \<Rightarrow> filesystem_shared d);
          fs_type_l = map_option g_ascii_strdown fs_type;
          fsmo = compute_mount_options_for_fs_type daemon block fs_type_l
      in (case prepend_default_mount_options sys fsmo caller_uid options shared_fs of
            None \<Rightarrow> None
          | Some options_to_use \<Rightarrow>
              (case validate_options sys fsmo caller_uid options_to_use
                      ''uhelper=udisks2,nodev,nosuid'' of
                 Inl error \<Rightarrow> Some (Inl error)
               | Inr options_to_use_str \<Rightarrow>
                   if g_utf8_validate sys options_to_use_str
                   then Some (Inr options_to_use_str) else None)))"

subsection \<open>An example environment\<close>

text \<open>
  A user database with the single user 1000 whose primary group is 1000 and who has no
  other group, and a UTF-8 check for strings of ASCII bytes, on which
  \<^verbatim>\<open>g_utf8_validate\<close> succeeds.
\<close>

definition example_user_info :: "uid_t \<Rightarrow> (gid_t \<times> string) option" where
  "example_user_info uid = (if uid = 1000 then Some (1000, ''user'') else None)"

definition example_grouplist :: "string \<Rightarrow> gid_t \<Rightarrow> nat \<Rightarrow> gid_t list option" where
  "example_grouplist user_name gid n = Some [gid]"

definition ascii_string :: "string \<Rightarrow> bool" where
  "ascii_string s = list_all (\<lambda>c. (of_char c :: nat) < 128) s"

definition example_sys :: sys where
  "example_sys =
     \<lparr>get_user_info = example_user_info, getgrouplist = example_grouplist,
      g_utf8_validate = ascii_string\<rparr>"

text \<open>A block device without udev mount options, not at a shared location.\<close>

definition example_block :: UDisksBlock where
  "example_block =
     \<lparr>device = ''/dev/sdb1'', symlinks = [''/dev/disk/by-label/stick''],
      udev_device = Some \<lparr>udev_mount_options = [], filesystem_shared = False\<rparr>\<rparr>"

text \<open>
  The built-in policy of the end-to-end scenario as the specification states it: general
  defaults \<^verbatim>\<open>uid\<close>, \<^verbatim>\<open>gid\<close>, \<^verbatim>\<open>shortname=mixed\<close> and the two allowed
  \<^verbatim>\<open>shortname\<close> values for \<^verbatim>\<open>vfat\<close>.
\<close>

definition scenario_daemon :: UDisksDaemon where
  "scenario_daemon =
     \<lparr>builtin_opts = Some
        [(''defaults'',
          [(''defaults'',
            \<lparr>defaults = Some [''uid'', ''gid'', ''shortname=mixed''], allow = None,
             allow_uid_self = None, allow_gid_self = None\<rparr>),
           (''vfat'',
            \<lparr>defaults = None, allow = Some [''shortname=mixed'', ''shortname=lower''],
             allow_uid_self = None, allow_gid_self = None\<rparr>)])],
      config_file_opts = None\<rparr>"

text \<open>
  The same policy with the defaults written \<^verbatim>\<open>uid=\<close> and \<^verbatim>\<open>gid=\<close> and with
  the two self-match lists that let the substituted values pass the evaluator.
\<close>

definition scenario_daemon_self :: UDisksDaemon where
  "scenario_daemon_self =
     \<lparr>builtin_opts = Some
        [(''defaults'',
          [(''defaults'',
            \<lparr>defaults = Some [''uid='', ''gid='', ''shortname=mixed''], allow = None,
             allow_uid_self = Some [''uid''], allow_gid_self = Some [''gid'']\<rparr>),
           (''vfat'',
            \<lparr>defaults = None, allow = Some [''shortname=mixed'', ''shortname=lower''],
             allow_uid_self = None, allow_gid_self = None\<rparr>)])],
      config_file_opts = None\<rparr>"

text \<open>
  A policy record that lists \<^verbatim>\<open>uid\<close> for the self-match on the user id, and one
  whose allow list names \<^verbatim>\<open>uid\<close> as well.
\<close>

definition uid_self_record :: FSMountOptions where
  "uid_self_record =
     \<lparr>defaults = None, allow = None, allow_uid_self = Some [''uid''], allow_gid_self = None\<rparr>"

definition both_lists_record :: FSMountOptions where
  "both_lists_record =
     \<lparr>defaults = None, allow = Some [''uid'', ''uid=0'', ''ro''],
      allow_uid_self = Some [''uid''], allow_gid_self = None\<rparr>"

text \<open>
  The entries of a vector, none for the NULL vector: the loops over a vector and the
  guarded calls of \<^verbatim>\<open>g_strv_contains\<close> treat NULL as the vector without entries.
\<close>

definition strv_entries :: "strv \<Rightarrow> string list" where
  "strv_entries strv = (case strv of None \<Rightarrow> [] | Some l \<Rightarrow> l)"



text \<open>
  A built-in policy with defaults and an allow list both for any filesystem type and for
  \<^verbatim>\<open>ext4\<close>.
\<close>

definition union_daemon :: UDisksDaemon where
  "union_daemon =
     \<lparr>builtin_opts = Some
        [(''defaults'',
          [(''defaults'',
            \<lparr>defaults = Some [''noatime''], allow = Some [''ro'', ''noatime''],
             allow_uid_self = None, allow_gid_self = None\<rparr>),
           (''ext4'',
            \<lparr>defaults = Some [''errors=remount-ro''], allow = Some [''errors=remount-ro'', ''ro''],
             allow_uid_self = None, allow_gid_self = None\<rparr>)])],
      config_file_opts = None\<rparr>"

subsection \<open>The precedence of the origins as the specification states it\<close>

text \<open>
  The definitions of this subsection follow the words of the specification, not the code:
  they are what the resolver is compared with. The section of an origin for the device is
  a section other than \<^verbatim>\<open>defaults\<close> whose name is the path of the device or one of
  its aliases.
\<close>

definition spec_device_section :: "opts_table \<Rightarrow> UDisksBlock \<Rightarrow> fs_table option" where
  "spec_device_section opts block =
     (case filter (\<lambda>(k, t). k \<noteq> ''defaults'' \<and> (k = device block \<or> k \<in> set (symlinks block)))
             opts of
        [] \<Rightarrow> None
      | (k, t) # rest \<Rightarrow> Some t)"

text \<open>
  The sections of one origin in the order in which they apply: the general section, then
  the section for the device. An origin that is absent has none.
\<close>

definition spec_origin_sections :: "opts_table option \<Rightarrow> UDisksBlock \<Rightarrow> fs_table option list" where
  "spec_origin_sections origin block =
     (case origin of
        None \<Rightarrow> []
      | Some opts \<Rightarrow> [map_of opts ''defaults'', spec_device_section opts block])"

text \<open>
  The sections of a request from the lowest to the highest precedence: the built-in policy,
  the configuration file, the properties of the device, which are one flat section.
\<close>

definition spec_precedence_sections :: "UDisksDaemon \<Rightarrow> UDisksBlock \<Rightarrow> fs_table option list" where
  "spec_precedence_sections daemon block =
     spec_origin_sections (builtin_opts daemon) block @
     spec_origin_sections (config_file_opts daemon) block @
     [map_option udev_mount_options (udev_device block)]"

text \<open>The record each section holds under a key, none where the section is absent.\<close>

definition spec_records_for :: "string \<Rightarrow> fs_table option list \<Rightarrow> FSMountOptions option list" where
  "spec_records_for key sections =
     map (\<lambda>section. case section of None \<Rightarrow> None | Some t \<Rightarrow> map_of t key) sections"

text \<open>
  The list of the last record in a sequence that defines the member \<open>m\<close>, NULL when no
  record defines it. A record defines a member when the member is not NULL; the list may be
  empty.
\<close>

definition spec_last_defined ::
  "(FSMountOptions \<Rightarrow> strv) \<Rightarrow> FSMountOptions option list \<Rightarrow> strv" where
  "spec_last_defined m records =
     (case filter (\<lambda>v. v \<noteq> None)
             (map (\<lambda>r. case r of None \<Rightarrow> None | Some x \<Rightarrow> m x) records) of
        [] \<Rightarrow> None
      | v # vs \<Rightarrow> last (v # vs))"

text \<open>
  A policy in every layer for \<^verbatim>\<open>vfat\<close> on \<^verbatim>\<open>/dev/sdb1\<close>: built-in general
  section, general and device section of the configuration file, properties of the device.
\<close>

definition layered_daemon :: UDisksDaemon where
  "layered_daemon =
     \<lparr>builtin_opts = Some
        [(''defaults'',
          [(''defaults'',
            \<lparr>defaults = Some [''nosuid''], allow = Some [''exec'', ''noexec''],
             allow_uid_self = None, allow_gid_self = None\<rparr>),
           (''vfat'',
            \<lparr>defaults = Some [''flush''], allow = Some [''flush'', ''utf8''],
             allow_uid_self = Some [''uid''], allow_gid_self = None\<rparr>)])],
      config_file_opts = Some
        [(''defaults'',
          [(''vfat'',
            \<lparr>defaults = None, allow = Some [''flush''],
             allow_uid_self = None, allow_gid_self = None\<rparr>)]),
         (''/dev/sdb1'',
          [(''vfat'',
            \<lparr>defaults = Some [''ro''], allow = None,
             allow_uid_self = None, allow_gid_self = None\<rparr>)])]\<rparr>"

definition layered_block :: UDisksBlock where
  "layered_block =
     \<lparr>device = ''/dev/sdb1'', symlinks = [''/dev/disk/by-label/stick''],
      udev_device = Some
        \<lparr>udev_mount_options =
           [(''vfat'',
             \<lparr>defaults = None, allow = Some [''ro'', ''flush''],
              allow_uid_self = None, allow_gid_self = None\<rparr>)],
         filesystem_shared = False\<rparr>\<rparr>"

section \<open>Properties\<close>

subsection \<open>The validation loop\<close>

lemma validate_options_prefix:
  "validate_options sys fsmo caller_uid cands str = Inr s \<Longrightarrow> prefix str s"
proof (induction cands arbitrary: str)
  case Nil
  then show ?case by simp
next
  case (Cons c cands)
  obtain key value0 where c: "c = (key, value0)" by (cases c)
  from Cons.prems c
  have "validate_options sys fsmo caller_uid cands
          (str @ '','' @ option_text key (variant_value value0)) = Inr s"
    by (simp add: Let_def split: if_splits)
  then have "prefix (str @ '','' @ option_text key (variant_value value0)) s"
    by (rule Cons.IH)
  then show ?case
    by (rule append_prefixD)
qed

lemma validate_options_passed:
  assumes "\<forall>(key, value0) \<in> set pre.
             CHR '','' \<notin> set key \<and>
             is_mount_option_allowed sys fsmo key (variant_value value0) caller_uid"
  shows "validate_options sys fsmo caller_uid (pre @ rest) str =
         validate_options sys fsmo caller_uid rest
           (str @ concat (map (\<lambda>(key, value0). '','' @ option_text key (variant_value value0)) pre))"
  using assms
proof (induction pre arbitrary: str)
  case Nil
  then show ?case by simp
next
  case (Cons c pre)
  obtain key value0 where c: "c = (key, value0)" by (cases c)
  from Cons.prems c have ok: "CHR '','' \<notin> set key"
      "is_mount_option_allowed sys fsmo key (variant_value value0) caller_uid"
    and rest: "\<forall>(key, value0) \<in> set pre.
             CHR '','' \<notin> set key \<and>
             is_mount_option_allowed sys fsmo key (variant_value value0) caller_uid"
    by auto
  show ?case
    using ok Cons.IH [OF rest] by (simp add: c Let_def)
qed

lemma validate_options_first_offender:
  assumes "(key, value0) \<in> set cands"
    and "CHR '','' \<in> set key \<or>
         \<not> is_mount_option_allowed sys fsmo key (variant_value value0) caller_uid"
  shows "\<exists>pre k v post.
           cands = pre @ (k, v) # post \<and>
           (\<forall>(k', v') \<in> set pre.
              CHR '','' \<notin> set k' \<and>
              is_mount_option_allowed sys fsmo k' (variant_value v') caller_uid) \<and>
           (CHR '','' \<in> set k \<or>
            \<not> is_mount_option_allowed sys fsmo k (variant_value v) caller_uid) \<and>
           validate_options sys fsmo caller_uid cands str =
             Inl (if CHR '','' \<in> set k then malformed_option_error k
                  else not_allowed_error k (variant_value v))"
proof -
  let ?bad = "\<lambda>(k, v). CHR '','' \<in> set k \<or>
                \<not> is_mount_option_allowed sys fsmo k (variant_value v) caller_uid"
  from assms have "\<exists>x \<in> set cands. ?bad x" by auto
  then obtain pre x post where split: "cands = pre @ x # post" and bad: "?bad x"
    and good: "\<forall>y \<in> set pre. \<not> ?bad y"
    by (auto dest!: split_list_first_prop)
  obtain k v where x: "x = (k, v)" by (cases x)
  from good have good': "\<forall>(k', v') \<in> set pre.
              CHR '','' \<notin> set k' \<and>
              is_mount_option_allowed sys fsmo k' (variant_value v') caller_uid"
    by auto
  have "validate_options sys fsmo caller_uid cands str =
          Inl (if CHR '','' \<in> set k then malformed_option_error k
               else not_allowed_error k (variant_value v))"
    using bad unfolding split x validate_options_passed [OF good']
    by (auto simp add: Let_def)
  with split x bad good' show ?thesis by blast
qed

lemma not_allowed_error_text:
  "not_allowed_error key value =
     (UDISKS_ERROR_OPTION_NOT_PERMITTED,
      ''Mount option `'' @ option_text key value @ [CHR 0x27] @ '' is not allowed'')"
  by (cases "value") (simp_all add: not_allowed_error_def option_text_def apostrophe_def)

text \<open>The definitions unfolded to run the model on a concrete request.\<close>

lemmas eval_defs =
  udisks_linux_calculate_mount_options_def compute_mount_options_for_fs_type_def
  apply_origins_def compute_block_level_mount_options_def find_block_options_def
  override_from_table_def override_fs_mount_options_def override_member_def
  append_fs_mount_options_def strv_append_unique_def fs_mount_options_zero_def
  MOUNT_OPTIONS_CONFIG_GROUP_DEFAULTS_def prepend_default_mount_options_def
  default_option_def given_option_def g_strsplit_comma_def strchr_eq_def
  VARIANT_NULL_STRING_def variant_value_def option_text_def
  malformed_option_error_def not_allowed_error_def apostrophe_def
  is_mount_option_allowed_def is_uid_in_gid_def g_strv_contains_def fsmo_member_def
  strtol_def isspace_def isdigit_def digits_value_def LONG_MAX_def LONG_MIN_def
  decimal.simps
  example_sys_def example_user_info_def example_grouplist_def ascii_string_def
  example_block_def

lemma g_ascii_strdown_vfat:
  "g_ascii_strdown ''VFAT'' = ''vfat''" "g_ascii_strdown ''vfat'' = ''vfat''"
  by code_simp+


lemma g_ascii_strdown_ext4: "g_ascii_strdown ''ext4'' = ''ext4''"
  by code_simp

subsection \<open>The fixed safety options\<close>

text \<open>
  Claim C1. Whenever \<^verbatim>\<open>udisks_linux_calculate_mount_options\<close> returns a string, for
  any policy tables, device, caller and requested options, the string starts with
  \<^verbatim>\<open>uhelper=udisks2,nodev,nosuid\<close>: the loop only appends to it.
\<close>

theorem safety_options_first:
  assumes "udisks_linux_calculate_mount_options sys daemon block caller_uid fs_type options =
             Some (Inr s)"
  shows "prefix ''uhelper=udisks2,nodev,nosuid'' s"
  using assms
  by (auto simp: udisks_linux_calculate_mount_options_def Let_def
           split: option.splits sum.splits if_splits
           dest: validate_options_prefix)

theorem safety_options_first_witness:
  "udisks_linux_calculate_mount_options example_sys scenario_daemon_self example_block 1000
     (Some ''VFAT'') (Some ''shortname=lower,x-mount.mkdir'') =
     Some (Inr ''uhelper=udisks2,nodev,nosuid,uid=1000,gid=1000,shortname=mixed,shortname=lower,x-mount.mkdir'') \<and>
   prefix ''uhelper=udisks2,nodev,nosuid''
     ''uhelper=udisks2,nodev,nosuid,uid=1000,gid=1000,shortname=mixed,shortname=lower,x-mount.mkdir''"
proof -
  have run: "udisks_linux_calculate_mount_options example_sys scenario_daemon_self example_block
       1000 (Some ''VFAT'') (Some ''shortname=lower,x-mount.mkdir'') =
     Some (Inr ''uhelper=udisks2,nodev,nosuid,uid=1000,gid=1000,shortname=mixed,shortname=lower,x-mount.mkdir'')"
    by (simp add: eval_defs scenario_daemon_self_def g_ascii_strdown_vfat Let_def)
  show ?thesis
    by (rule conjI [OF run safety_options_first [OF run]])
qed

subsection \<open>Rejection of the whole request\<close>

text \<open>
  Claim C2. When a candidate option has a comma in its name or is refused by the
  evaluator, the call returns an error and no string: the error is that of the first
  such candidate, every candidate before it having passed both checks. Its code is
  \<^verbatim>\<open>UDISKS_ERROR_OPTION_NOT_PERMITTED\<close> in both cases; the message is
  \<^verbatim>\<open>Malformed mount option `name'\<close> for a comma and
  \<^verbatim>\<open>Mount option `name=value' is not allowed\<close> (without \<^verbatim>\<open>=value\<close> when the
  option has no value) for a refused option.
\<close>

theorem invalid_option_aborts:
  assumes fsmo: "fsmo = compute_mount_options_for_fs_type daemon block
                          (map_option g_ascii_strdown fs_type)"
    and shared_fs: "shared_fs =
           (case udev_device block of None \<Rightarrow> False | Some d \<Rightarrow> filesystem_shared d)"
    and candidates:
          "prepend_default_mount_options sys fsmo caller_uid options shared_fs = Some candidates"
    and candidate: "(key, value0) \<in> set candidates"
    and invalid: "CHR '','' \<in> set key \<or>
           \<not> is_mount_option_allowed sys fsmo key (variant_value value0) caller_uid"
  shows "\<exists>pre k v post.
           candidates = pre @ (k, v) # post \<and>
           (\<forall>(k', v') \<in> set pre.
              CHR '','' \<notin> set k' \<and>
              is_mount_option_allowed sys fsmo k' (variant_value v') caller_uid) \<and>
           (CHR '','' \<in> set k \<or>
            \<not> is_mount_option_allowed sys fsmo k (variant_value v) caller_uid) \<and>
           udisks_linux_calculate_mount_options sys daemon block caller_uid fs_type options =
             Some (Inl (UDISKS_ERROR_OPTION_NOT_PERMITTED,
                        if CHR '','' \<in> set k
                        then ''Malformed mount option `'' @ k @ [CHR 0x27]
                        else ''Mount option `'' @ option_text k (variant_value v) @ [CHR 0x27] @
                             '' is not allowed''))"
proof -
  obtain pre k v post where split: "candidates = pre @ (k, v) # post"
    and passed: "\<forall>(k', v') \<in> set pre.
              CHR '','' \<notin> set k' \<and>
              is_mount_option_allowed sys fsmo k' (variant_value v') caller_uid"
    and offender: "CHR '','' \<in> set k \<or>
            \<not> is_mount_option_allowed sys fsmo k (variant_value v) caller_uid"
    and result: "validate_options sys fsmo caller_uid candidates ''uhelper=udisks2,nodev,nosuid'' =
             Inl (if CHR '','' \<in> set k then malformed_option_error k
                  else not_allowed_error k (variant_value v))"
    using validate_options_first_offender [OF candidate invalid] by blast
  have "udisks_linux_calculate_mount_options sys daemon block caller_uid fs_type options =
          Some (Inl (if CHR '','' \<in> set k then malformed_option_error k
                     else not_allowed_error k (variant_value v)))"
    using candidates result
    by (simp add: udisks_linux_calculate_mount_options_def Let_def
          fsmo [symmetric] shared_fs [symmetric])
  then have "udisks_linux_calculate_mount_options sys daemon block caller_uid fs_type options =
             Some (Inl (UDISKS_ERROR_OPTION_NOT_PERMITTED,
                        if CHR '','' \<in> set k
                        then ''Malformed mount option `'' @ k @ [CHR 0x27]
                        else ''Mount option `'' @ option_text k (variant_value v) @ [CHR 0x27] @
                             '' is not allowed''))"
    by (simp add: malformed_option_error_def not_allowed_error_text apostrophe_def)
  with split passed offender show ?thesis by blast
qed

lemma scenario_self_fsmo:
  "compute_mount_options_for_fs_type scenario_daemon_self example_block
     (map_option g_ascii_strdown (Some ''vfat'')) =
   Some \<lparr>defaults = Some [''uid='', ''gid='', ''shortname=mixed''],
         allow = Some [''shortname=mixed'', ''shortname=lower''],
         allow_uid_self = Some [''uid''], allow_gid_self = Some [''gid'']\<rparr>"
  by (simp add: eval_defs scenario_daemon_self_def g_ascii_strdown_vfat Let_def)

theorem invalid_option_aborts_witness:
  "prepend_default_mount_options example_sys
     (compute_mount_options_for_fs_type scenario_daemon_self example_block
        (map_option g_ascii_strdown (Some ''vfat''))) 1000
     (Some ''shortname=win95,x-late'') False =
     Some [(''uid'', ''1000''), (''gid'', ''1000''), (''shortname'', ''mixed''),
           (''shortname'', ''win95''), (''x-late'', VARIANT_NULL_STRING)] \<and>
   \<not> is_mount_option_allowed example_sys
        (compute_mount_options_for_fs_type scenario_daemon_self example_block
           (map_option g_ascii_strdown (Some ''vfat'')))
        ''shortname'' (variant_value ''win95'') 1000 \<and>
   udisks_linux_calculate_mount_options example_sys scenario_daemon_self example_block 1000
     (Some ''vfat'') (Some ''shortname=win95,x-late'') =
     Some (Inl (UDISKS_ERROR_OPTION_NOT_PERMITTED,
                ''Mount option `shortname=win95'' @ [CHR 0x27] @ '' is not allowed'')) \<and>
   (\<exists>k v. udisks_linux_calculate_mount_options example_sys scenario_daemon_self example_block
             1000 (Some ''vfat'') (Some ''shortname=win95,x-late'') =
           Some (Inl (UDISKS_ERROR_OPTION_NOT_PERMITTED,
                      if CHR '','' \<in> set k
                      then ''Malformed mount option `'' @ k @ [CHR 0x27]
                      else ''Mount option `'' @ option_text k (variant_value v) @ [CHR 0x27] @
                           '' is not allowed'')))"
proof -
  let ?fsmo = "compute_mount_options_for_fs_type scenario_daemon_self example_block
                 (map_option g_ascii_strdown (Some ''vfat''))"
  let ?cands = "[(''uid'', ''1000''), (''gid'', ''1000''), (''shortname'', ''mixed''),
           (''shortname'', ''win95''), (''x-late'', VARIANT_NULL_STRING)]"
  have shared: "False = (case udev_device example_block of None \<Rightarrow> False
                         | Some d \<Rightarrow> filesystem_shared d)"
    by (simp add: example_block_def)
  have cands: "prepend_default_mount_options example_sys ?fsmo 1000
                 (Some ''shortname=win95,x-late'') False = Some ?cands"
    unfolding scenario_self_fsmo by (simp add: eval_defs scenario_daemon_self_def Let_def)
  have mem: "(''shortname'', ''win95'') \<in> set ?cands"
    by simp
  have refused: "\<not> is_mount_option_allowed example_sys ?fsmo ''shortname''
                     (variant_value ''win95'') 1000"
    unfolding scenario_self_fsmo by (simp add: eval_defs scenario_daemon_self_def Let_def)
  then have invalid: "CHR '','' \<in> set ''shortname'' \<or>
      \<not> is_mount_option_allowed example_sys ?fsmo ''shortname'' (variant_value ''win95'') 1000"
    by (rule disjI2)
  have run: "udisks_linux_calculate_mount_options example_sys scenario_daemon_self
             example_block 1000 (Some ''vfat'') (Some ''shortname=win95,x-late'') =
     Some (Inl (UDISKS_ERROR_OPTION_NOT_PERMITTED,
                ''Mount option `shortname=win95'' @ [CHR 0x27] @ '' is not allowed''))"
    by (simp add: eval_defs scenario_daemon_self_def g_ascii_strdown_vfat Let_def)
  have "\<exists>k v. udisks_linux_calculate_mount_options example_sys scenario_daemon_self example_block
             1000 (Some ''vfat'') (Some ''shortname=win95,x-late'') =
           Some (Inl (UDISKS_ERROR_OPTION_NOT_PERMITTED,
                      if CHR '','' \<in> set k
                      then ''Malformed mount option `'' @ k @ [CHR 0x27]
                      else ''Mount option `'' @ option_text k (variant_value v) @ [CHR 0x27] @
                           '' is not allowed''))"
    using invalid_option_aborts [OF refl shared cands mem invalid] by blast
  with cands refused run show ?thesis by blast
qed

subsection \<open>The order of the rules of the evaluator\<close>

text \<open>
  Claim C4. The evaluator decides by the first rule that applies. The exact token
  \<^verbatim>\<open>name=value\<close> in the allow list, for a non-empty value, allows the option whatever
  the self-match lists say. Otherwise a name in \<^verbatim>\<open>allow_uid_self\<close> is decided by the
  uid rule alone and, failing that, a name in \<^verbatim>\<open>allow_gid_self\<close> by the gid rule
  alone: neither result depends on the allow list or on the prefix \<^verbatim>\<open>x-\<close>. Only a name
  in neither list is looked up as \<^verbatim>\<open>name=\<close> and \<^verbatim>\<open>name\<close> in the allow list and then
  tested for the prefix \<^verbatim>\<open>x-\<close>.
\<close>

theorem allow_rules_in_order:
  fixes sys fsmo name val caller_uid
  defines "exact \<equiv> (\<exists>v. val = Some v \<and> v \<noteq> [] \<and>
                        g_strv_contains (fsmo_member allow fsmo) (name @ ''='' @ v))"
    and "uid_self \<equiv> g_strv_contains (fsmo_member allow_uid_self fsmo) name"
    and "gid_self \<equiv> g_strv_contains (fsmo_member allow_gid_self fsmo) name"
  shows "(exact \<longrightarrow> is_mount_option_allowed sys fsmo name val caller_uid) \<and>
    (\<not> exact \<and> uid_self \<longrightarrow>
       is_mount_option_allowed sys fsmo name val caller_uid =
         (\<exists>v. val = Some v \<and> v \<noteq> [] \<and> snd (strtol v) = [] \<and>
              (word_of_int (fst (strtol v)) :: uid_t) = caller_uid)) \<and>
    (\<not> exact \<and> \<not> uid_self \<and> gid_self \<longrightarrow>
       is_mount_option_allowed sys fsmo name val caller_uid =
         (\<exists>v. val = Some v \<and> v \<noteq> [] \<and> snd (strtol v) = [] \<and>
              is_uid_in_gid sys caller_uid (word_of_int (fst (strtol v))))) \<and>
    (\<not> exact \<and> \<not> uid_self \<and> \<not> gid_self \<longrightarrow>
       is_mount_option_allowed sys fsmo name val caller_uid =
         (g_strv_contains (fsmo_member allow fsmo) (name @ ''='') \<or>
          g_strv_contains (fsmo_member allow fsmo) name \<or>
          prefix ''x-'' name))"
  unfolding exact_def uid_self_def gid_self_def
  by (cases val) (auto simp: is_mount_option_allowed_def split: prod.splits)

theorem allow_rules_in_order_witness:
  "is_mount_option_allowed example_sys (Some both_lists_record) ''uid'' (Some ''0'') 1000 \<and>
   \<not> is_mount_option_allowed example_sys (Some both_lists_record) ''uid'' (Some ''1001'') 1000 \<and>
   \<not> is_mount_option_allowed example_sys (Some both_lists_record) ''uid'' None 1000 \<and>
   is_mount_option_allowed example_sys (Some both_lists_record) ''ro'' None 1000 \<and>
   is_mount_option_allowed example_sys (Some both_lists_record) ''x-gvfs-show'' None 1000 \<and>
   \<not> is_mount_option_allowed example_sys (Some both_lists_record) ''suid'' None 1000"
proof -
  let ?r = "Some both_lists_record"
  note defs = g_strv_contains_def fsmo_member_def both_lists_record_def
  note rule = allow_rules_in_order [where fsmo = ?r and sys = example_sys and caller_uid = 1000]
  have a: "is_mount_option_allowed example_sys ?r ''uid'' (Some ''0'') 1000"
    using rule [where val = "Some ''0''" and name = "''uid''"] by (simp add: defs)
  have "\<not> ((word_of_int (fst (strtol ''1001'')) :: uid_t) = 1000)"
    by (simp add: strtol_def isspace_def isdigit_def digits_value_def LONG_MAX_def
          LONG_MIN_def Let_def)
  then have b: "\<not> is_mount_option_allowed example_sys ?r ''uid'' (Some ''1001'') 1000"
    using rule [where val = "Some ''1001''" and name = "''uid''"] by (simp add: defs)
  have c: "\<not> is_mount_option_allowed example_sys ?r ''uid'' None 1000"
    using rule [where val = None and name = "''uid''"] by (simp add: defs)
  have d: "is_mount_option_allowed example_sys ?r ''ro'' None 1000"
    using rule [where val = None and name = "''ro''"] by (simp add: defs)
  have e: "is_mount_option_allowed example_sys ?r ''x-gvfs-show'' None 1000"
    using rule [where val = None and name = "''x-gvfs-show''"] by (simp add: defs)
  have f: "\<not> is_mount_option_allowed example_sys ?r ''suid'' None 1000"
    using rule [where val = None and name = "''suid''"] by (simp add: defs)
  from a b c d e f show ?thesis by blast
qed

subsection \<open>The self-match on the user id\<close>

lemma word_of_int_eq_uid:
  fixes w :: uid_t
  assumes "0 \<le> n" "n < 2 ^ 32"
  shows "(word_of_int n = w) = (n = uint w)"
proof
  assume "word_of_int n = w"
  then have "uint w = n mod 2 ^ 32"
    by (auto simp: uint_word_of_int)
  with assms show "n = uint w" by simp
next
  assume "n = uint w"
  then show "word_of_int n = w" by simp
qed

lemma isdigit_not_isspace: "isdigit c \<Longrightarrow> \<not> isspace c"
  by (auto simp: isdigit_def isspace_def)

lemma strtol_whole_string:
  assumes "v \<noteq> []"
  shows "snd (strtol v) = [] \<longleftrightarrow>
         (\<exists>ws sg ds. v = ws @ sg @ ds \<and> list_all isspace ws \<and>
            (sg = [] \<or> sg = ''+'' \<or> sg = ''-'') \<and> ds \<noteq> [] \<and> list_all isdigit ds)"
    (is "?lhs \<longleftrightarrow> ?rhs")
proof
  assume lhs: ?lhs
  define s where "s = dropWhile isspace v"
  define t where "t = (if s \<noteq> [] \<and> (hd s = CHR ''-'' \<or> hd s = CHR ''+'') then tl s else s)"
  define sg where "sg = (if s \<noteq> [] \<and> (hd s = CHR ''-'' \<or> hd s = CHR ''+'') then [hd s] else [])"
  have ds: "takeWhile isdigit t \<noteq> []"
    using lhs assms by (auto simp: strtol_def Let_def s_def t_def split: if_splits)
  then have "dropWhile isdigit t = []"
    using lhs by (auto simp: strtol_def Let_def s_def t_def split: if_splits)
  then have t_digits: "list_all isdigit t"
    by (simp add: list_all_iff)
  from ds have t_ne: "t \<noteq> []" by auto
  have v: "v = takeWhile isspace v @ sg @ t"
  proof -
    have "s = sg @ t" by (cases s) (auto simp: sg_def t_def)
    moreover have "v = takeWhile isspace v @ s" by (simp add: s_def)
    ultimately show ?thesis by simp
  qed
  have "list_all isspace (takeWhile isspace v)"
    by (simp add: list_all_iff) (meson set_takeWhileD)
  moreover have "sg = [] \<or> sg = ''+'' \<or> sg = ''-''"
    by (auto simp: sg_def)
  ultimately show ?rhs
    using v t_ne t_digits by blast
next
  assume ?rhs
  then obtain ws sg ds where v: "v = ws @ sg @ ds" and ws: "list_all isspace ws"
    and sg: "sg = [] \<or> sg = ''+'' \<or> sg = ''-''" and ds: "ds \<noteq> []" "list_all isdigit ds"
    by blast
  from ds obtain d ds' where dsc: "ds = d # ds'" and d: "isdigit d"
    by (cases ds) auto
  have nsp: "\<not> isspace (hd (sg @ ds))"
    using sg d dsc by (auto simp: isspace_def isdigit_def)
  have s: "dropWhile isspace v = sg @ ds"
  proof -
    have "dropWhile isspace v = dropWhile isspace (sg @ ds)"
      unfolding v using ws by (simp add: list_all_iff)
    also have "\<dots> = sg @ ds"
      using nsp dsc by (cases "sg @ ds") auto
    finally show ?thesis .
  qed
  have dnsign: "d \<noteq> CHR ''-''" "d \<noteq> CHR ''+''"
    using d by (auto simp: isdigit_def)
  have tw: "takeWhile isdigit ds = ds" "dropWhile isdigit ds = []"
    using ds by (simp_all add: list_all_iff)
  show ?lhs
    using sg ds tw dnsign by (auto simp: strtol_def Let_def s dsc)
qed

lemma foldl_digits_nonneg:
  assumes "list_all isdigit xs" and "0 \<le> a"
  shows "0 \<le> foldl (\<lambda>acc c. 10 * acc + (of_char c - 48)) (a::int) xs"
  using assms
proof (induction xs arbitrary: a)
  case Nil
  then show ?case by simp
next
  case (Cons x xs)
  from Cons.prems(1) have "isdigit x" by simp
  then have "(48::int) \<le> of_char x" by (auto simp: isdigit_def)
  with Cons.prems(2) have "0 \<le> 10 * a + (of_char x - 48)" by simp
  moreover from Cons.prems(1) have "list_all isdigit xs" by simp
  ultimately show ?case using Cons.IH by simp
qed

lemma strtol_digits:
  assumes "v \<noteq> []" "list_all isdigit v"
  shows "strtol v = (min LONG_MAX (digits_value v), [])"
proof -
  from assms obtain d ds' where dsc: "v = d # ds'" and d: "isdigit d"
    by (cases v) auto
  have s: "dropWhile isspace v = v"
    using d by (simp add: dsc isdigit_not_isspace)
  have dnsign: "d \<noteq> CHR ''-''" "d \<noteq> CHR ''+''"
    using d by (auto simp: isdigit_def)
  have tw: "takeWhile isdigit v = v" "dropWhile isdigit v = []"
    using assms by (simp_all add: list_all_iff)
  have nonneg: "0 \<le> digits_value v"
    using assms(2) by (simp add: digits_value_def foldl_digits_nonneg)
  have "LONG_MIN \<le> 0" by (simp add: LONG_MIN_def)
  have "0 \<le> LONG_MAX" by (simp add: LONG_MAX_def)
  have hd: "hd v = d" by (simp add: dsc)
  have clamp: "max LONG_MIN (min LONG_MAX (digits_value v)) = min LONG_MAX (digits_value v)"
    using nonneg \<open>LONG_MIN \<le> 0\<close> \<open>0 \<le> LONG_MAX\<close> by simp
  show ?thesis
    unfolding strtol_def Let_def s
    by (simp add: hd dnsign tw assms(1) clamp)
qed

text \<open>
  Claim C3, as stated, fails: the value is read by \<^verbatim>\<open>strtol\<close>, which accepts leading
  white space and a sign, and its \<^verbatim>\<open>long\<close> result is converted to \<^verbatim>\<open>uid_t\<close>.
  For the requester 1000 the value \<^verbatim>\<open>+1000\<close>, which is not a string of digits, is
  allowed, and so is \<^verbatim>\<open>4294968296\<close>, whose value is not 1000.
\<close>

theorem uid_self_rule_counterexample:
  "is_mount_option_allowed example_sys (Some uid_self_record) ''uid'' (Some ''+1000'') 1000 \<and>
   \<not> list_all isdigit ''+1000'' \<and>
   is_mount_option_allowed example_sys (Some uid_self_record) ''uid'' (Some ''4294968296'') 1000 \<and>
   list_all isdigit ''4294968296'' \<and> digits_value ''4294968296'' = 4294968296"
  by (simp add: eval_defs uid_self_record_def Let_def)

text \<open>
  Claim C3, amended. For a name in \<^verbatim>\<open>allow_uid_self\<close> whose exact token is not in the
  allow list: an absent or empty value, and a value that \<^verbatim>\<open>strtol\<close> does not read to
  its end, are refused; a value read to its end with a result in the range of
  \<^verbatim>\<open>uid_t\<close> is allowed exactly when the result is the requester's uid, and so a
  non-empty string of digits with a value below \<open>2 ^ 32\<close> is allowed exactly when that
  value is the requester's uid. The values read to their end are optional white space, an
  optional sign and one or more digits.
\<close>

theorem uid_self_rule:
  assumes uid_self: "g_strv_contains (fsmo_member allow_uid_self fsmo) name"
    and not_exact: "\<forall>v. value = Some v \<and> v \<noteq> [] \<longrightarrow>
           \<not> g_strv_contains (fsmo_member allow fsmo) (name @ ''='' @ v)"
  shows "(value = None \<or> value = Some [] \<longrightarrow>
            \<not> is_mount_option_allowed sys fsmo name value caller_uid) \<and>
         (\<forall>v. value = Some v \<and> snd (strtol v) \<noteq> [] \<longrightarrow>
            \<not> is_mount_option_allowed sys fsmo name value caller_uid) \<and>
         (\<forall>v. value = Some v \<and> v \<noteq> [] \<and> snd (strtol v) = [] \<and>
              0 \<le> fst (strtol v) \<and> fst (strtol v) < 2 ^ 32 \<longrightarrow>
            is_mount_option_allowed sys fsmo name value caller_uid =
              (fst (strtol v) = uint caller_uid)) \<and>
         (\<forall>v. value = Some v \<and> v \<noteq> [] \<and> list_all isdigit v \<and> digits_value v < 2 ^ 32 \<longrightarrow>
            is_mount_option_allowed sys fsmo name value caller_uid =
              (digits_value v = uint caller_uid)) \<and>
         (\<forall>v. v \<noteq> [] \<longrightarrow>
            (snd (strtol v) = []) =
              (\<exists>ws sg ds. v = ws @ sg @ ds \<and> list_all isspace ws \<and>
                 (sg = [] \<or> sg = ''+'' \<or> sg = ''-'') \<and> ds \<noteq> [] \<and> list_all isdigit ds))"
proof (intro conjI allI impI)
  assume "value = None \<or> value = Some []"
  then show "\<not> is_mount_option_allowed sys fsmo name value caller_uid"
    using uid_self by (auto simp: is_mount_option_allowed_def)
next
  fix v assume "value = Some v \<and> snd (strtol v) \<noteq> []"
  then show "\<not> is_mount_option_allowed sys fsmo name value caller_uid"
    using uid_self not_exact
    by (auto simp: is_mount_option_allowed_def split: prod.splits)
next
  fix v
  assume v: "value = Some v \<and> v \<noteq> [] \<and> snd (strtol v) = [] \<and>
              0 \<le> fst (strtol v) \<and> fst (strtol v) < 2 ^ 32"
  then have "is_mount_option_allowed sys fsmo name value caller_uid =
               ((word_of_int (fst (strtol v)) :: uid_t) = caller_uid)"
    using uid_self not_exact
    by (auto simp: is_mount_option_allowed_def split: prod.splits)
  also have "\<dots> = (fst (strtol v) = uint caller_uid)"
    using v by (simp add: word_of_int_eq_uid)
  finally show "is_mount_option_allowed sys fsmo name value caller_uid =
              (fst (strtol v) = uint caller_uid)" .
next
  fix v
  assume v: "value = Some v \<and> v \<noteq> [] \<and> list_all isdigit v \<and> digits_value v < 2 ^ 32"
  then have st: "strtol v = (min LONG_MAX (digits_value v), [])"
    by (simp add: strtol_digits)
  have "digits_value v < LONG_MAX" using v by (simp add: LONG_MAX_def)
  then have st': "strtol v = (digits_value v, [])" using st by simp
  have nonneg: "0 \<le> digits_value v"
    using v by (simp add: digits_value_def foldl_digits_nonneg)
  have "is_mount_option_allowed sys fsmo name value caller_uid =
               ((word_of_int (digits_value v) :: uid_t) = caller_uid)"
    using v uid_self not_exact st'
    by (auto simp: is_mount_option_allowed_def)
  also have "\<dots> = (digits_value v = uint caller_uid)"
    using v nonneg by (simp add: word_of_int_eq_uid)
  finally show "is_mount_option_allowed sys fsmo name value caller_uid =
              (digits_value v = uint caller_uid)" .
next
  fix v :: string assume "v \<noteq> []"
  then show "(snd (strtol v) = []) =
              (\<exists>ws sg ds. v = ws @ sg @ ds \<and> list_all isspace ws \<and>
                 (sg = [] \<or> sg = ''+'' \<or> sg = ''-'') \<and> ds \<noteq> [] \<and> list_all isdigit ds)"
    by (rule strtol_whole_string)
qed

theorem uid_self_rule_witness:
  "g_strv_contains (fsmo_member allow_uid_self (Some uid_self_record)) ''uid'' \<and>
   is_mount_option_allowed example_sys (Some uid_self_record) ''uid'' (Some ''1000'') 1000 \<and>
   \<not> is_mount_option_allowed example_sys (Some uid_self_record) ''uid'' (Some ''1001'') 1000 \<and>
   \<not> is_mount_option_allowed example_sys (Some uid_self_record) ''uid'' (Some ''abc'') 1000 \<and>
   \<not> is_mount_option_allowed example_sys (Some uid_self_record) ''uid'' None 1000"
proof -
  let ?r = "Some uid_self_record"
  have listed: "g_strv_contains (fsmo_member allow_uid_self ?r) ''uid''"
    by (simp add: g_strv_contains_def fsmo_member_def uid_self_record_def)
  have not_exact: "\<forall>v. val = Some v \<and> v \<noteq> [] \<longrightarrow>
           \<not> g_strv_contains (fsmo_member allow ?r) (''uid'' @ ''='' @ v)" for val :: "string option"
    by (simp add: g_strv_contains_def fsmo_member_def uid_self_record_def)
  note rule = uid_self_rule [OF listed not_exact, where sys = example_sys and caller_uid = 1000]
  note no_value = rule [THEN conjunct1]
  note unparsed = rule [THEN conjunct2, THEN conjunct1, THEN spec]
  note digits = rule [THEN conjunct2, THEN conjunct2, THEN conjunct2, THEN conjunct1, THEN spec]
  have v1000: "list_all isdigit ''1000''" "digits_value ''1000'' = 1000"
    by (simp_all add: isdigit_def digits_value_def)
  have v1001: "list_all isdigit ''1001''" "digits_value ''1001'' = 1001"
    by (simp_all add: isdigit_def digits_value_def)
  have a: "is_mount_option_allowed example_sys ?r ''uid'' (Some ''1000'') 1000"
    using digits [of "Some ''1000''" "''1000''"] v1000 by simp
  have b: "\<not> is_mount_option_allowed example_sys ?r ''uid'' (Some ''1001'') 1000"
    using digits [of "Some ''1001''" "''1001''"] v1001 by simp
  have "snd (strtol ''abc'') \<noteq> []"
    by (simp add: strtol_def isspace_def isdigit_def Let_def)
  then have c: "\<not> is_mount_option_allowed example_sys ?r ''uid'' (Some ''abc'') 1000"
    using unparsed [of "Some ''abc''" "''abc''"] by simp
  have d: "\<not> is_mount_option_allowed example_sys ?r ''uid'' None 1000"
    using no_value [of None] by simp
  from listed a b c d show ?thesis by blast
qed

subsection \<open>Override between origins\<close>

lemma override_member_simps:
  "override_member (Some l) d = Some l" "override_member None d = d"
  by (simp_all add: override_member_def)

lemma level_general:
  assumes scope: "scope = ''defaults'' \<or> scope = device block \<or> scope \<in> set (symlinks block)"
  shows "compute_block_level_mount_options
                   [(scope, [(''defaults'', \<lparr>defaults = None, allow = Some [x],
                                   allow_uid_self = None, allow_gid_self = None\<rparr>)])] block fstype
                   (fsmo, fsmo_any) =
                 (True,
                  if fstype = Some ''defaults'' then fsmo\<lparr>allow := Some [x]\<rparr> else fsmo,
                  fsmo_any\<lparr>allow := Some [x]\<rparr>)"
proof -
  have tab: "override_from_table [(''defaults'', \<lparr>defaults = None, allow = Some [x],
                                   allow_uid_self = None, allow_gid_self = None\<rparr>)] fstype
               (c, fsmo, fsmo_any) =
             (True, if fstype = Some ''defaults'' then fsmo\<lparr>allow := Some [x]\<rparr> else fsmo,
                  fsmo_any\<lparr>allow := Some [x]\<rparr>)" for c
    by (cases fstype)
       (simp_all add: override_from_table_def override_fs_mount_options_def override_member_simps
          MOUNT_OPTIONS_CONFIG_GROUP_DEFAULTS_def Let_def)
  show ?thesis
  proof (cases "scope = ''defaults''")
    case True
    then show ?thesis
      by (simp add: compute_block_level_mount_options_def find_block_options_def tab
            MOUNT_OPTIONS_CONFIG_GROUP_DEFAULTS_def Let_def)
  next
    case False
    with scope have "scope = device block \<or> scope \<in> set (symlinks block)" by simp
    with False show ?thesis
      by (simp add: compute_block_level_mount_options_def find_block_options_def tab
            MOUNT_OPTIONS_CONFIG_GROUP_DEFAULTS_def Let_def)
  qed
qed


lemma level_specific:
  assumes scope: "scope = ''defaults'' \<or> scope = device block \<or> scope \<in> set (symlinks block)"
  shows "compute_block_level_mount_options
                   [(scope, [(ft, \<lparr>defaults = None, allow = Some [x], allow_uid_self = None,
                                   allow_gid_self = None\<rparr>)])] block (Some ft)
                   (fsmo, fsmo_any) =
                 (True, fsmo\<lparr>allow := Some [x]\<rparr>,
                  if ft = ''defaults'' then fsmo_any\<lparr>allow := Some [x]\<rparr> else fsmo_any)"
proof -
  have tab: "override_from_table [(ft, \<lparr>defaults = None, allow = Some [x],
                                   allow_uid_self = None, allow_gid_self = None\<rparr>)] (Some ft)
               (c, fsmo, fsmo_any) =
             (True, fsmo\<lparr>allow := Some [x]\<rparr>,
                  if ft = ''defaults'' then fsmo_any\<lparr>allow := Some [x]\<rparr> else fsmo_any)" for c
    by (simp add: override_from_table_def override_fs_mount_options_def override_member_simps
          MOUNT_OPTIONS_CONFIG_GROUP_DEFAULTS_def Let_def)
  show ?thesis
  proof (cases "scope = ''defaults''")
    case True
    then show ?thesis
      by (simp add: compute_block_level_mount_options_def find_block_options_def tab
            MOUNT_OPTIONS_CONFIG_GROUP_DEFAULTS_def Let_def)
  next
    case False
    with scope have "scope = device block \<or> scope \<in> set (symlinks block)" by simp
    with False show ?thesis
      by (simp add: compute_block_level_mount_options_def find_block_options_def tab
            MOUNT_OPTIONS_CONFIG_GROUP_DEFAULTS_def Let_def)
  qed
qed

lemma no_udev_mount_options:
  assumes "\<forall>d. udev_device block = Some d \<longrightarrow> udev_mount_options d = []"
  shows "(case udev_device block of None \<Rightarrow> st
          | Some d \<Rightarrow> override_from_table (udev_mount_options d) fstype st) = st"
proof (cases "udev_device block")
  case None
  then show ?thesis by simp
next
  case (Some d)
  with assms have "udev_mount_options d = []" by simp
  moreover obtain c f g where "st = (c, f, g)" by (cases st)
  ultimately show ?thesis
    using Some
    by (cases fstype)
       (simp_all add: override_from_table_def override_fs_mount_options_def Let_def)
qed

lemma override_scenario_specific:
  assumes "scope = ''defaults'' \<or> scope = device block \<or> scope \<in> set (symlinks block)"
    and "\<forall>d. udev_device block = Some d \<longrightarrow> udev_mount_options d = []"
  shows "compute_mount_options_for_fs_type
              \<lparr>builtin_opts = Some [(scope, [(ft, fs_mount_options_zero\<lparr>allow := Some [a]\<rparr>)])],
               config_file_opts =
                 Some [(scope, [(ft, fs_mount_options_zero\<lparr>allow := Some [b]\<rparr>)])]\<rparr>
              block (Some ft) =
            Some (fs_mount_options_zero\<lparr>allow := Some [b]\<rparr>)"
  by (simp add: compute_mount_options_for_fs_type_def apply_origins_def
        level_specific [OF assms(1)] no_udev_mount_options [OF assms(2)] Let_def
        append_fs_mount_options_def strv_append_unique_def fs_mount_options_zero_def)

lemma override_scenario_general:
  assumes "scope = ''defaults'' \<or> scope = device block \<or> scope \<in> set (symlinks block)"
    and "\<forall>d. udev_device block = Some d \<longrightarrow> udev_mount_options d = []"
  shows "compute_mount_options_for_fs_type
              \<lparr>builtin_opts =
                 Some [(scope, [(''defaults'', fs_mount_options_zero\<lparr>allow := Some [a]\<rparr>)])],
               config_file_opts =
                 Some [(scope, [(''defaults'', fs_mount_options_zero\<lparr>allow := Some [b]\<rparr>)])]\<rparr>
              block fstype =
            Some (fs_mount_options_zero\<lparr>allow := Some [b]\<rparr>)"
  by (simp add: compute_mount_options_for_fs_type_def apply_origins_def
        level_general [OF assms(1)] no_udev_mount_options [OF assms(2)] Let_def
        append_fs_mount_options_def strv_append_unique_def fs_mount_options_zero_def)

text \<open>The section for the device that the resolver finds is the one of the specification.\<close>

lemma find_block_options_device_section:
  "find_block_options opts block = spec_device_section opts block"
proof (induction opts)
  case Nil
  show ?case
    by (simp add: find_block_options_def spec_device_section_def)
next
  case (Cons e opts)
  obtain k t where e: "e = (k, t)" by (cases e)
  let ?P = "\<lambda>k. k \<noteq> MOUNT_OPTIONS_CONFIG_GROUP_DEFAULTS \<and>
                 (k = device block \<or> k \<in> set (symlinks block))"
  show ?case
  proof (cases "?P k")
    case True
    then show ?thesis
      by (simp add: find_block_options_def spec_device_section_def e
            MOUNT_OPTIONS_CONFIG_GROUP_DEFAULTS_def)
  next
    case False
    have "find_block_options (e # opts) block = find_block_options opts block"
    proof (cases "find ?P (map fst opts)")
      case None
      with False show ?thesis by (simp add: find_block_options_def e)
    next
      case (Some k')
      then have "?P k'" by (auto simp: find_Some_iff)
      with False have "k' \<noteq> k" by auto
      with False Some show ?thesis by (auto simp: find_block_options_def e)
    qed
    moreover have "spec_device_section (e # opts) block = spec_device_section opts block"
      using False by (auto simp: spec_device_section_def e MOUNT_OPTIONS_CONFIG_GROUP_DEFAULTS_def)
    ultimately show ?thesis using Cons.IH by simp
  qed
qed

text \<open>The accumulator after a list of records has overridden it in turn.\<close>

lemma override_field:
  "defaults (override_fs_mount_options r acc) =
     (case (case r of None \<Rightarrow> None | Some x \<Rightarrow> defaults x) of None \<Rightarrow> defaults acc | Some l \<Rightarrow> Some l)"
  "allow (override_fs_mount_options r acc) =
     (case (case r of None \<Rightarrow> None | Some x \<Rightarrow> allow x) of None \<Rightarrow> allow acc | Some l \<Rightarrow> Some l)"
  "allow_uid_self (override_fs_mount_options r acc) =
     (case (case r of None \<Rightarrow> None | Some x \<Rightarrow> allow_uid_self x) of
        None \<Rightarrow> allow_uid_self acc | Some l \<Rightarrow> Some l)"
  "allow_gid_self (override_fs_mount_options r acc) =
     (case (case r of None \<Rightarrow> None | Some x \<Rightarrow> allow_gid_self x) of
        None \<Rightarrow> allow_gid_self acc | Some l \<Rightarrow> Some l)"
  by (simp_all add: override_fs_mount_options_def override_member_def split: option.splits)

lemma spec_last_defined_alt:
  "spec_last_defined m records =
     (let vs = filter (\<lambda>v. v \<noteq> None)
                 (map (\<lambda>r. case r of None \<Rightarrow> None | Some x \<Rightarrow> m x) records)
      in if vs = [] then None else last vs)"
  by (simp add: spec_last_defined_def Let_def split: list.splits)

lemma spec_last_defined_snoc:
  "spec_last_defined m (records @ [r]) =
     (case (case r of None \<Rightarrow> None | Some x \<Rightarrow> m x) of
        None \<Rightarrow> spec_last_defined m records | Some l \<Rightarrow> Some l)"
  by (simp add: spec_last_defined_alt Let_def split: option.splits)

lemma spec_last_defined_Nil [simp]: "spec_last_defined m [] = None"
  by (simp add: spec_last_defined_def)

lemma foldl_override_field:
  assumes step: "\<And>r acc. m (override_fs_mount_options r acc) =
     (case (case r of None \<Rightarrow> None | Some x \<Rightarrow> m x) of None \<Rightarrow> m acc | Some l \<Rightarrow> Some l)"
  shows "m (foldl (\<lambda>acc r. override_fs_mount_options r acc) acc0 records) =
         (case spec_last_defined m records of None \<Rightarrow> m acc0 | Some l \<Rightarrow> Some l)"
proof (induction records rule: rev_induct)
  case Nil
  show ?case by simp
next
  case (snoc r records)
  show ?case
    by (simp add: step spec_last_defined_snoc snoc.IH split: option.splits)
qed

lemma override_from_table_eq:
  "override_from_table t fstype (c, fsmo, fsmo_any) =
     (c \<or> map_of t ''defaults'' \<noteq> None \<or>
        (case fstype of None \<Rightarrow> None | Some ft \<Rightarrow> map_of t ft) \<noteq> None,
      override_fs_mount_options (case fstype of None \<Rightarrow> None | Some ft \<Rightarrow> map_of t ft) fsmo,
      override_fs_mount_options (map_of t ''defaults'') fsmo_any)"
  by (simp add: override_from_table_def MOUNT_OPTIONS_CONFIG_GROUP_DEFAULTS_def Let_def)

lemma override_None [simp]: "override_fs_mount_options None acc = acc"
  by (simp add: override_fs_mount_options_def)

text \<open>The record a section holds for the requested type, none without a type.\<close>

lemma compute_block_level_snd:
  "snd (compute_block_level_mount_options opts block fstype (fsmo, fsmo_any)) =
     (foldl (\<lambda>acc r. override_fs_mount_options r acc) fsmo
        (map (\<lambda>section. case section of None \<Rightarrow> None
                | Some t \<Rightarrow> (case fstype of None \<Rightarrow> None | Some ft \<Rightarrow> map_of t ft))
           (spec_origin_sections (Some opts) block)),
      foldl (\<lambda>acc r. override_fs_mount_options r acc) fsmo_any
        (spec_records_for ''defaults'' (spec_origin_sections (Some opts) block)))"
  unfolding compute_block_level_mount_options_def find_block_options_device_section
    spec_origin_sections_def spec_records_for_def MOUNT_OPTIONS_CONFIG_GROUP_DEFAULTS_def Let_def
  by (cases "map_of opts ''defaults''"; cases "spec_device_section opts block")
     (simp_all add: override_from_table_eq)

text \<open>The resolver folds the override over the sections in the order of precedence.\<close>

lemma apply_origins_foldl:
  assumes "builtin_opts daemon \<noteq> None"
  shows "apply_origins daemon block fstype =
     Some (foldl (\<lambda>acc r. override_fs_mount_options r acc) fs_mount_options_zero
             (map (\<lambda>section. case section of None \<Rightarrow> None
                     | Some t \<Rightarrow> (case fstype of None \<Rightarrow> None | Some ft \<Rightarrow> map_of t ft))
                (spec_precedence_sections daemon block)),
           foldl (\<lambda>acc r. override_fs_mount_options r acc) fs_mount_options_zero
             (spec_records_for ''defaults'' (spec_precedence_sections daemon block)))"
proof -
  from assms obtain builtin where builtin: "builtin_opts daemon = Some builtin" by auto
  define st1 where "st1 = snd (compute_block_level_mount_options builtin block fstype
                       (fs_mount_options_zero, fs_mount_options_zero))"
  define st2 where "st2 = (case config_file_opts daemon of
                        None \<Rightarrow> st1
                      | Some overrides \<Rightarrow>
                          snd (compute_block_level_mount_options overrides block fstype st1))"
  define st3 where "st3 = (case udev_device block of
                        None \<Rightarrow> st2
                      | Some d \<Rightarrow>
                          (override_fs_mount_options
                             (case fstype of None \<Rightarrow> None
                              | Some ft \<Rightarrow> map_of (udev_mount_options d) ft) (fst st2),
                           override_fs_mount_options
                             (map_of (udev_mount_options d) ''defaults'') (snd st2)))"
  have udev: "snd (case udev_device block of None \<Rightarrow> (c, st2)
                   | Some d \<Rightarrow> override_from_table (udev_mount_options d) fstype (c, st2)) = st3"
    for c
    by (cases st2; cases "udev_device block") (simp_all add: st3_def override_from_table_eq)
  have run: "apply_origins daemon block fstype = Some st3"
  proof (cases "config_file_opts daemon")
    case None
    then have e: "st2 = st1" by (simp add: st2_def)
    have "snd (case udev_device block of None \<Rightarrow> (False, st1)
               | Some d \<Rightarrow> override_from_table (udev_mount_options d) fstype (False, st1)) = st3"
      using udev [of False] unfolding e .
    then show ?thesis
      unfolding apply_origins_def builtin Let_def None option.case st1_def
      by simp
  next
    case (Some overrides)
    define p where "p = compute_block_level_mount_options overrides block fstype st1"
    have "snd p = st2" by (simp add: st2_def Some p_def)
    then have p: "(fst p, st2) = p" by (metis prod.collapse)
    have "snd (case udev_device block of None \<Rightarrow> p
               | Some d \<Rightarrow> override_from_table (udev_mount_options d) fstype p) = st3"
      using udev [of "fst p"] unfolding p .
    then show ?thesis
      unfolding apply_origins_def builtin Let_def Some option.case st1_def p_def
      by simp
  qed
  let ?ft = "\<lambda>section. case section of None \<Rightarrow> None
                     | Some t \<Rightarrow> (case fstype of None \<Rightarrow> None | Some ft \<Rightarrow> map_of t ft)"
  let ?ov = "\<lambda>acc r. override_fs_mount_options r acc"
  have s1: "st1 = (foldl ?ov fs_mount_options_zero (map ?ft (spec_origin_sections (Some builtin) block)),
                   foldl ?ov fs_mount_options_zero
                     (spec_records_for ''defaults'' (spec_origin_sections (Some builtin) block)))"
    unfolding st1_def by (rule compute_block_level_snd)
  have s2: "st2 = (foldl ?ov (fst st1) (map ?ft (spec_origin_sections (config_file_opts daemon) block)),
                   foldl ?ov (snd st1)
                     (spec_records_for ''defaults'' (spec_origin_sections (config_file_opts daemon) block)))"
  proof (cases "config_file_opts daemon")
    case None
    then show ?thesis by (simp add: st2_def spec_origin_sections_def spec_records_for_def)
  next
    case (Some overrides)
    then show ?thesis
      using compute_block_level_snd [of overrides block fstype "fst st1" "snd st1"]
      by (simp add: st2_def)
  qed
  have s3: "st3 = (foldl ?ov (fst st2) (map ?ft [map_option udev_mount_options (udev_device block)]),
                   foldl ?ov (snd st2)
                     (spec_records_for ''defaults'' [map_option udev_mount_options (udev_device block)]))"
    by (cases "udev_device block") (simp_all add: st3_def spec_records_for_def)
  show ?thesis
    unfolding run s3 s2 s1
    by (simp add: spec_precedence_sections_def spec_records_for_def builtin)
qed

lemma foldl_override_no_record:
  "foldl (\<lambda>acc r. override_fs_mount_options r acc) acc
     (map (\<lambda>section. case section of None \<Rightarrow> None | Some (t :: fs_table) \<Rightarrow> None) sections) = acc"
  by (induction sections arbitrary: acc) (simp_all split: option.splits)

lemma parse_empty_value:
  assumes "next [] = End_of_optstr"
  shows "parse_mount_options_string next (Some []) = Some (Some [])"
  using assms by (simp add: parse_mount_options_string_def parse_loop.simps)

lemma apply_origins_field:
  assumes builtin: "builtin_opts daemon \<noteq> None"
    and step: "\<And>r acc. m (override_fs_mount_options r acc) =
       (case (case r of None \<Rightarrow> None | Some x \<Rightarrow> m x) of None \<Rightarrow> m acc | Some l \<Rightarrow> Some l)"
    and zero: "m fs_mount_options_zero = None"
    and run: "apply_origins daemon block fstype = Some (fsmo, fsmo_any)"
  shows "m fsmo_any =
           spec_last_defined m (spec_records_for ''defaults'' (spec_precedence_sections daemon block))"
    and "fstype = Some ft \<Longrightarrow>
         m fsmo = spec_last_defined m (spec_records_for ft (spec_precedence_sections daemon block))"
proof -
  note run' = run [unfolded apply_origins_foldl [OF builtin]]
  from run' have any: "fsmo_any = foldl (\<lambda>acc r. override_fs_mount_options r acc) fs_mount_options_zero
             (spec_records_for ''defaults'' (spec_precedence_sections daemon block))"
    by simp
  show "m fsmo_any =
           spec_last_defined m (spec_records_for ''defaults'' (spec_precedence_sections daemon block))"
    unfolding any foldl_override_field [of m, OF step] zero
    by (simp split: option.splits)
  assume ft: "fstype = Some ft"
  from run' have spec: "fsmo = foldl (\<lambda>acc r. override_fs_mount_options r acc) fs_mount_options_zero
             (spec_records_for ft (spec_precedence_sections daemon block))"
    by (simp add: ft spec_records_for_def)
  show "m fsmo = spec_last_defined m (spec_records_for ft (spec_precedence_sections daemon block))"
    unfolding spec foldl_override_field [of m, OF step] zero
    by (simp split: option.splits)
qed

lemma apply_origins_no_type:
  assumes builtin: "builtin_opts daemon \<noteq> None"
    and run: "apply_origins daemon block None = Some (fsmo, fsmo_any)"
  shows "fsmo = fs_mount_options_zero"
  using run [unfolded apply_origins_foldl [OF builtin]]
  by (simp add: foldl_override_no_record)

lemma zero_fields:
  "defaults fs_mount_options_zero = None" "allow fs_mount_options_zero = None"
  "allow_uid_self fs_mount_options_zero = None" "allow_gid_self fs_mount_options_zero = None"
  by (simp_all add: fs_mount_options_zero_def)

lemma apply_origins_precedence:
  assumes builtin: "builtin_opts daemon \<noteq> None"
  shows "\<exists>fsmo fsmo_any.
           apply_origins daemon block fstype = Some (fsmo, fsmo_any) \<and>
           defaults fsmo_any = spec_last_defined defaults
              (spec_records_for ''defaults'' (spec_precedence_sections daemon block)) \<and>
           allow fsmo_any = spec_last_defined allow
              (spec_records_for ''defaults'' (spec_precedence_sections daemon block)) \<and>
           allow_uid_self fsmo_any = spec_last_defined allow_uid_self
              (spec_records_for ''defaults'' (spec_precedence_sections daemon block)) \<and>
           allow_gid_self fsmo_any = spec_last_defined allow_gid_self
              (spec_records_for ''defaults'' (spec_precedence_sections daemon block)) \<and>
           (\<forall>ft. fstype = Some ft \<longrightarrow>
              defaults fsmo = spec_last_defined defaults
                (spec_records_for ft (spec_precedence_sections daemon block)) \<and>
              allow fsmo = spec_last_defined allow
                (spec_records_for ft (spec_precedence_sections daemon block)) \<and>
              allow_uid_self fsmo = spec_last_defined allow_uid_self
                (spec_records_for ft (spec_precedence_sections daemon block)) \<and>
              allow_gid_self fsmo = spec_last_defined allow_gid_self
                (spec_records_for ft (spec_precedence_sections daemon block))) \<and>
           (fstype = None \<longrightarrow> fsmo = fs_mount_options_zero)"
proof -
  obtain fsmo fsmo_any where run: "apply_origins daemon block fstype = Some (fsmo, fsmo_any)"
    using apply_origins_foldl [OF builtin] by blast
  note f = apply_origins_field [OF builtin _ _ run]
  have "defaults fsmo_any = spec_last_defined defaults
              (spec_records_for ''defaults'' (spec_precedence_sections daemon block))"
    by (rule f(1) [of defaults, OF override_field(1) zero_fields(1)])
  moreover have "allow fsmo_any = spec_last_defined allow
              (spec_records_for ''defaults'' (spec_precedence_sections daemon block))"
    by (rule f(1) [of allow, OF override_field(2) zero_fields(2)])
  moreover have "allow_uid_self fsmo_any = spec_last_defined allow_uid_self
              (spec_records_for ''defaults'' (spec_precedence_sections daemon block))"
    by (rule f(1) [of allow_uid_self, OF override_field(3) zero_fields(3)])
  moreover have "allow_gid_self fsmo_any = spec_last_defined allow_gid_self
              (spec_records_for ''defaults'' (spec_precedence_sections daemon block))"
    by (rule f(1) [of allow_gid_self, OF override_field(4) zero_fields(4)])
  moreover have "defaults fsmo = spec_last_defined defaults
                (spec_records_for ft (spec_precedence_sections daemon block))"
    if "fstype = Some ft" for ft
    by (rule f(2) [of defaults, OF override_field(1) zero_fields(1) that])
  moreover have "allow fsmo = spec_last_defined allow
                (spec_records_for ft (spec_precedence_sections daemon block))"
    if "fstype = Some ft" for ft
    by (rule f(2) [of allow, OF override_field(2) zero_fields(2) that])
  moreover have "allow_uid_self fsmo = spec_last_defined allow_uid_self
                (spec_records_for ft (spec_precedence_sections daemon block))"
    if "fstype = Some ft" for ft
    by (rule f(2) [of allow_uid_self, OF override_field(3) zero_fields(3) that])
  moreover have "allow_gid_self fsmo = spec_last_defined allow_gid_self
                (spec_records_for ft (spec_precedence_sections daemon block))"
    if "fstype = Some ft" for ft
    by (rule f(2) [of allow_gid_self, OF override_field(4) zero_fields(4) that])
  moreover have "fsmo = fs_mount_options_zero" if "fstype = None"
    using apply_origins_no_type [OF builtin] run that by simp
  ultimately show ?thesis using run by blast
qed

text \<open>
  Claim C5, as stated, fails: the later record replaces a member whenever its own member
  is not NULL, also when that list is empty. The parser returns the empty vector, not
  NULL, for a key with an empty value (\<open>parse_empty_value\<close>), so a configuration file
  with \<^verbatim>\<open>vfat_allow=\<close> replaces the built-in allow list \<open>[ro]\<close> by the empty
  list, and \<^verbatim>\<open>ro\<close>, which the built-in list allows, is refused.
\<close>

theorem empty_list_replaces_counterexample:
  "allow (override_fs_mount_options
       (Some \<lparr>defaults = None, allow = Some [], allow_uid_self = None, allow_gid_self = None\<rparr>)
       \<lparr>defaults = None, allow = Some [''ro''], allow_uid_self = None,
        allow_gid_self = None\<rparr>) = Some [] \<and>
   compute_mount_options_for_fs_type
     \<lparr>builtin_opts =
        Some [(''defaults'', [(''vfat'', fs_mount_options_zero\<lparr>allow := Some [''ro'']\<rparr>)])],
      config_file_opts =
        Some [(''defaults'', [(''vfat'', fs_mount_options_zero\<lparr>allow := Some []\<rparr>)])]\<rparr>
     example_block (Some ''vfat'') =
   Some (fs_mount_options_zero\<lparr>allow := Some []\<rparr>) \<and>
   is_mount_option_allowed example_sys (Some (fs_mount_options_zero\<lparr>allow := Some [''ro'']\<rparr>))
     ''ro'' None 1000 \<and>
   \<not> is_mount_option_allowed example_sys (Some (fs_mount_options_zero\<lparr>allow := Some []\<rparr>))
     ''ro'' None 1000"
  by (simp add: eval_defs)

text \<open>
  Claim C5, amended. A record defines a member when the member is not NULL, also when its
  list is empty. \<^verbatim>\<open>override_fs_mount_options\<close> replaces each member of the
  accumulator that the later record defines by that record's list, whole, and leaves a
  member the later record does not define as it was. In the resolver, each member of the
  general accumulator is the list of the last section that defines it in its record for
  any filesystem type, and each member of the accumulator for the requested type is the
  list of the last section that defines it in its record for that type, in the order
  built-in general section, built-in section for the device, general section of the
  configuration file, its section for the device, properties of the device; a member no
  section defines is NULL. A built-in record with the allow list \<open>[a]\<close> and a
  configuration file record with the allow list \<open>[b]\<close>, in the same section and for the
  same filesystem type, give the effective allow list \<open>[b]\<close>.
\<close>

theorem later_origin_replaces_field:
  fixes src dest :: FSMountOptions
  defines "r \<equiv> override_fs_mount_options (Some src) dest"
  shows "(\<forall>l. defaults src = Some l \<longrightarrow> defaults r = Some l) \<and>
         (defaults src = None \<longrightarrow> defaults r = defaults dest) \<and>
         (\<forall>l. allow src = Some l \<longrightarrow> allow r = Some l) \<and>
         (allow src = None \<longrightarrow> allow r = allow dest) \<and>
         (\<forall>l. allow_uid_self src = Some l \<longrightarrow> allow_uid_self r = Some l) \<and>
         (allow_uid_self src = None \<longrightarrow> allow_uid_self r = allow_uid_self dest) \<and>
         (\<forall>l. allow_gid_self src = Some l \<longrightarrow> allow_gid_self r = Some l) \<and>
         (allow_gid_self src = None \<longrightarrow> allow_gid_self r = allow_gid_self dest) \<and>
         (\<forall>daemon block fstype.
            builtin_opts daemon \<noteq> None \<longrightarrow>
            (\<exists>fsmo fsmo_any.
               apply_origins daemon block fstype = Some (fsmo, fsmo_any) \<and>
               defaults fsmo_any = spec_last_defined defaults
                  (spec_records_for ''defaults'' (spec_precedence_sections daemon block)) \<and>
               allow fsmo_any = spec_last_defined allow
                  (spec_records_for ''defaults'' (spec_precedence_sections daemon block)) \<and>
               allow_uid_self fsmo_any = spec_last_defined allow_uid_self
                  (spec_records_for ''defaults'' (spec_precedence_sections daemon block)) \<and>
               allow_gid_self fsmo_any = spec_last_defined allow_gid_self
                  (spec_records_for ''defaults'' (spec_precedence_sections daemon block)) \<and>
               (\<forall>ft. fstype = Some ft \<longrightarrow>
                  defaults fsmo = spec_last_defined defaults
                    (spec_records_for ft (spec_precedence_sections daemon block)) \<and>
                  allow fsmo = spec_last_defined allow
                    (spec_records_for ft (spec_precedence_sections daemon block)) \<and>
                  allow_uid_self fsmo = spec_last_defined allow_uid_self
                    (spec_records_for ft (spec_precedence_sections daemon block)) \<and>
                  allow_gid_self fsmo = spec_last_defined allow_gid_self
                    (spec_records_for ft (spec_precedence_sections daemon block))) \<and>
               (fstype = None \<longrightarrow> fsmo = fs_mount_options_zero))) \<and>
         (\<forall>block scope ft a b.
            (scope = ''defaults'' \<or> scope = device block \<or> scope \<in> set (symlinks block)) \<and>
            (\<forall>d. udev_device block = Some d \<longrightarrow> udev_mount_options d = []) \<longrightarrow>
            compute_mount_options_for_fs_type
              \<lparr>builtin_opts = Some [(scope, [(ft, fs_mount_options_zero\<lparr>allow := Some [a]\<rparr>)])],
               config_file_opts =
                 Some [(scope, [(ft, fs_mount_options_zero\<lparr>allow := Some [b]\<rparr>)])]\<rparr>
              block (Some ft) =
            Some (fs_mount_options_zero\<lparr>allow := Some [b]\<rparr>)) \<and>
         (\<forall>block scope fstype a b.
            (scope = ''defaults'' \<or> scope = device block \<or> scope \<in> set (symlinks block)) \<and>
            (\<forall>d. udev_device block = Some d \<longrightarrow> udev_mount_options d = []) \<longrightarrow>
            compute_mount_options_for_fs_type
              \<lparr>builtin_opts =
                 Some [(scope, [(''defaults'', fs_mount_options_zero\<lparr>allow := Some [a]\<rparr>)])],
               config_file_opts =
                 Some [(scope, [(''defaults'', fs_mount_options_zero\<lparr>allow := Some [b]\<rparr>)])]\<rparr>
              block fstype =
            Some (fs_mount_options_zero\<lparr>allow := Some [b]\<rparr>))"
proof -
  have fields: "(\<forall>l. defaults src = Some l \<longrightarrow> defaults r = Some l) \<and>
         (defaults src = None \<longrightarrow> defaults r = defaults dest) \<and>
         (\<forall>l. allow src = Some l \<longrightarrow> allow r = Some l) \<and>
         (allow src = None \<longrightarrow> allow r = allow dest) \<and>
         (\<forall>l. allow_uid_self src = Some l \<longrightarrow> allow_uid_self r = Some l) \<and>
         (allow_uid_self src = None \<longrightarrow> allow_uid_self r = allow_uid_self dest) \<and>
         (\<forall>l. allow_gid_self src = Some l \<longrightarrow> allow_gid_self r = Some l) \<and>
         (allow_gid_self src = None \<longrightarrow> allow_gid_self r = allow_gid_self dest)"
    by (simp add: r_def override_fs_mount_options_def override_member_simps)
  have resolver: "\<forall>daemon block fstype.
            builtin_opts daemon \<noteq> None \<longrightarrow>
            (\<exists>fsmo fsmo_any.
               apply_origins daemon block fstype = Some (fsmo, fsmo_any) \<and>
               defaults fsmo_any = spec_last_defined defaults
                  (spec_records_for ''defaults'' (spec_precedence_sections daemon block)) \<and>
               allow fsmo_any = spec_last_defined allow
                  (spec_records_for ''defaults'' (spec_precedence_sections daemon block)) \<and>
               allow_uid_self fsmo_any = spec_last_defined allow_uid_self
                  (spec_records_for ''defaults'' (spec_precedence_sections daemon block)) \<and>
               allow_gid_self fsmo_any = spec_last_defined allow_gid_self
                  (spec_records_for ''defaults'' (spec_precedence_sections daemon block)) \<and>
               (\<forall>ft. fstype = Some ft \<longrightarrow>
                  defaults fsmo = spec_last_defined defaults
                    (spec_records_for ft (spec_precedence_sections daemon block)) \<and>
                  allow fsmo = spec_last_defined allow
                    (spec_records_for ft (spec_precedence_sections daemon block)) \<and>
                  allow_uid_self fsmo = spec_last_defined allow_uid_self
                    (spec_records_for ft (spec_precedence_sections daemon block)) \<and>
                  allow_gid_self fsmo = spec_last_defined allow_gid_self
                    (spec_records_for ft (spec_precedence_sections daemon block))) \<and>
               (fstype = None \<longrightarrow> fsmo = fs_mount_options_zero))"
    by (intro allI impI) (rule apply_origins_precedence)
  have specific: "\<forall>block scope ft a b.
            (scope = ''defaults'' \<or> scope = device block \<or> scope \<in> set (symlinks block)) \<and>
            (\<forall>d. udev_device block = Some d \<longrightarrow> udev_mount_options d = []) \<longrightarrow>
            compute_mount_options_for_fs_type
              \<lparr>builtin_opts = Some [(scope, [(ft, fs_mount_options_zero\<lparr>allow := Some [a]\<rparr>)])],
               config_file_opts =
                 Some [(scope, [(ft, fs_mount_options_zero\<lparr>allow := Some [b]\<rparr>)])]\<rparr>
              block (Some ft) =
            Some (fs_mount_options_zero\<lparr>allow := Some [b]\<rparr>)"
    by (intro allI impI, elim conjE) (rule override_scenario_specific)
  have general: "\<forall>block scope fstype a b.
            (scope = ''defaults'' \<or> scope = device block \<or> scope \<in> set (symlinks block)) \<and>
            (\<forall>d. udev_device block = Some d \<longrightarrow> udev_mount_options d = []) \<longrightarrow>
            compute_mount_options_for_fs_type
              \<lparr>builtin_opts =
                 Some [(scope, [(''defaults'', fs_mount_options_zero\<lparr>allow := Some [a]\<rparr>)])],
               config_file_opts =
                 Some [(scope, [(''defaults'', fs_mount_options_zero\<lparr>allow := Some [b]\<rparr>)])]\<rparr>
              block fstype =
            Some (fs_mount_options_zero\<lparr>allow := Some [b]\<rparr>)"
    by (intro allI impI, elim conjE) (rule override_scenario_general)
  from fields resolver specific general show ?thesis
    by (elim conjE, intro conjI) assumption+
qed

theorem later_origin_replaces_field_witness:
  "allow (override_fs_mount_options
       (Some \<lparr>defaults = None, allow = Some [''ro''], allow_uid_self = None,
              allow_gid_self = None\<rparr>)
       \<lparr>defaults = Some [''rw''], allow = Some [''exec'', ''rw''], allow_uid_self = None,
        allow_gid_self = None\<rparr>) = Some [''ro''] \<and>
   defaults (override_fs_mount_options
       (Some \<lparr>defaults = None, allow = Some [''ro''], allow_uid_self = None,
              allow_gid_self = None\<rparr>)
       \<lparr>defaults = Some [''rw''], allow = Some [''exec'', ''rw''], allow_uid_self = None,
        allow_gid_self = None\<rparr>) = Some [''rw''] \<and>
   builtin_opts layered_daemon \<noteq> None \<and>
   apply_origins layered_daemon layered_block (Some ''vfat'') =
     Some (\<lparr>defaults = Some [''ro''], allow = Some [''ro'', ''flush''],
            allow_uid_self = Some [''uid''], allow_gid_self = None\<rparr>,
           \<lparr>defaults = Some [''nosuid''], allow = Some [''exec'', ''noexec''],
            allow_uid_self = None, allow_gid_self = None\<rparr>) \<and>
   apply_origins layered_daemon layered_block None =
     Some (fs_mount_options_zero,
           \<lparr>defaults = Some [''nosuid''], allow = Some [''exec'', ''noexec''],
            allow_uid_self = None, allow_gid_self = None\<rparr>) \<and>
   compute_mount_options_for_fs_type
     \<lparr>builtin_opts = Some [(''defaults'', [(''vfat'', fs_mount_options_zero\<lparr>allow := Some [''a'']\<rparr>)])],
      config_file_opts =
        Some [(''defaults'', [(''vfat'', fs_mount_options_zero\<lparr>allow := Some [''b'']\<rparr>)])]\<rparr>
     example_block (Some ''vfat'') =
   Some (fs_mount_options_zero\<lparr>allow := Some [''b'']\<rparr>)"
proof -
  let ?src = "\<lparr>defaults = None, allow = Some [''ro''], allow_uid_self = None,
              allow_gid_self = None\<rparr>"
  let ?dest = "\<lparr>defaults = Some [''rw''], allow = Some [''exec'', ''rw''], allow_uid_self = None,
        allow_gid_self = None\<rparr>"
  note inst = later_origin_replaces_field [of ?src ?dest]
  have a: "allow (override_fs_mount_options (Some ?src) ?dest) = Some [''ro'']"
    using inst [THEN conjunct2, THEN conjunct2, THEN conjunct1] by simp
  have b: "defaults (override_fs_mount_options (Some ?src) ?dest) = Some [''rw'']"
    using inst [THEN conjunct2, THEN conjunct1] by simp
  note resolver = inst [THEN conjunct2, THEN conjunct2, THEN conjunct2, THEN conjunct2,
        THEN conjunct2, THEN conjunct2, THEN conjunct2, THEN conjunct2, THEN conjunct1,
        rule_format]
  have builtin: "builtin_opts layered_daemon \<noteq> None"
    by (simp add: layered_daemon_def)
  obtain fsmo fsmo_any where
    run: "apply_origins layered_daemon layered_block (Some ''vfat'') = Some (fsmo, fsmo_any)" and
    any: "defaults fsmo_any = Some [''nosuid'']" "allow fsmo_any = Some [''exec'', ''noexec'']"
         "allow_uid_self fsmo_any = None" "allow_gid_self fsmo_any = None" and
    spec: "defaults fsmo = Some [''ro'']" "allow fsmo = Some [''ro'', ''flush'']"
          "allow_uid_self fsmo = Some [''uid'']" "allow_gid_self fsmo = None"
    using resolver [of layered_daemon layered_block "Some ''vfat''", OF builtin]
    by (auto simp: spec_device_section_def spec_origin_sections_def
          spec_precedence_sections_def spec_records_for_def spec_last_defined_def layered_daemon_def layered_block_def)
  have typed: "apply_origins layered_daemon layered_block (Some ''vfat'') =
     Some (\<lparr>defaults = Some [''ro''], allow = Some [''ro'', ''flush''],
            allow_uid_self = Some [''uid''], allow_gid_self = None\<rparr>,
           \<lparr>defaults = Some [''nosuid''], allow = Some [''exec'', ''noexec''],
            allow_uid_self = None, allow_gid_self = None\<rparr>)"
    using run any spec by (cases fsmo; cases fsmo_any) simp
  obtain fsmo' fsmo_any' where
    run': "apply_origins layered_daemon layered_block None = Some (fsmo', fsmo_any')" and
    any': "defaults fsmo_any' = Some [''nosuid'']" "allow fsmo_any' = Some [''exec'', ''noexec'']"
         "allow_uid_self fsmo_any' = None" "allow_gid_self fsmo_any' = None" and
    spec': "fsmo' = fs_mount_options_zero"
    using resolver [of layered_daemon layered_block None, OF builtin]
    by (auto simp: spec_device_section_def spec_origin_sections_def
          spec_precedence_sections_def spec_records_for_def spec_last_defined_def layered_daemon_def layered_block_def)
  have untyped: "apply_origins layered_daemon layered_block None =
     Some (fs_mount_options_zero,
           \<lparr>defaults = Some [''nosuid''], allow = Some [''exec'', ''noexec''],
            allow_uid_self = None, allow_gid_self = None\<rparr>)"
    using run' any' spec' by (cases fsmo_any') simp
  have udev: "\<forall>d. udev_device example_block = Some d \<longrightarrow> udev_mount_options d = []"
    by (simp add: example_block_def)
  have c: "compute_mount_options_for_fs_type
     \<lparr>builtin_opts = Some [(''defaults'', [(''vfat'', fs_mount_options_zero\<lparr>allow := Some [''a'']\<rparr>)])],
      config_file_opts =
        Some [(''defaults'', [(''vfat'', fs_mount_options_zero\<lparr>allow := Some [''b'']\<rparr>)])]\<rparr>
     example_block (Some ''vfat'') =
   Some (fs_mount_options_zero\<lparr>allow := Some [''b'']\<rparr>)"
    using inst [THEN conjunct2, THEN conjunct2, THEN conjunct2, THEN conjunct2, THEN conjunct2,
        THEN conjunct2, THEN conjunct2, THEN conjunct2, THEN conjunct2, THEN conjunct1] udev
    by blast
  from a b builtin typed untyped c show ?thesis by blast
qed

subsection \<open>Union of the general and the specific record\<close>

lemma strv_append_unique_entries:
  "strv_entries (strv_append_unique src dest) =
     strv_entries dest @ filter (\<lambda>s. s \<notin> set (strv_entries dest)) (strv_entries src)"
  by (auto simp: strv_append_unique_def strv_entries_def Let_def split: option.splits)

text \<open>
  Claim C6. After the three origins, each member of the effective record holds the entries
  of the accumulator for the filesystem type in their order, followed by the entries of
  the general accumulator that are not among them, in the general accumulator's order.
  Specific defaults \<open>[x]\<close> and general defaults \<open>[y]\<close> give \<open>[x, y]\<close>, and
  \<open>[x]\<close> when \<open>x = y\<close>.
\<close>

theorem general_appended_to_specific:
  assumes "apply_origins daemon block fstype = Some (fsmo, fsmo_any)"
  shows "\<exists>r. compute_mount_options_for_fs_type daemon block fstype = Some r \<and>
           strv_entries (defaults r) =
             strv_entries (defaults fsmo) @
             filter (\<lambda>s. s \<notin> set (strv_entries (defaults fsmo))) (strv_entries (defaults fsmo_any)) \<and>
           strv_entries (allow r) =
             strv_entries (allow fsmo) @
             filter (\<lambda>s. s \<notin> set (strv_entries (allow fsmo))) (strv_entries (allow fsmo_any)) \<and>
           strv_entries (allow_uid_self r) =
             strv_entries (allow_uid_self fsmo) @
             filter (\<lambda>s. s \<notin> set (strv_entries (allow_uid_self fsmo)))
               (strv_entries (allow_uid_self fsmo_any)) \<and>
           strv_entries (allow_gid_self r) =
             strv_entries (allow_gid_self fsmo) @
             filter (\<lambda>s. s \<notin> set (strv_entries (allow_gid_self fsmo)))
               (strv_entries (allow_gid_self fsmo_any)) \<and>
           (\<forall>x y. defaults fsmo = Some [x] \<and> defaults fsmo_any = Some [y] \<longrightarrow>
              defaults r = Some (if x = y then [x] else [x, y]))"
  using assms
  by (simp add: compute_mount_options_for_fs_type_def append_fs_mount_options_def
        strv_append_unique_entries)
     (simp add: strv_append_unique_def)

theorem general_appended_to_specific_witness:
  "apply_origins union_daemon example_block (Some ''ext4'') =
     Some (\<lparr>defaults = Some [''errors=remount-ro''], allow = Some [''errors=remount-ro'', ''ro''],
            allow_uid_self = None, allow_gid_self = None\<rparr>,
           \<lparr>defaults = Some [''noatime''], allow = Some [''ro'', ''noatime''],
            allow_uid_self = None, allow_gid_self = None\<rparr>) \<and>
   (\<exists>r. compute_mount_options_for_fs_type union_daemon example_block (Some ''ext4'') = Some r \<and>
        defaults r = Some [''errors=remount-ro'', ''noatime''] \<and>
        strv_entries (allow r) = [''errors=remount-ro'', ''ro'', ''noatime''])"
proof -
  let ?fsmo = "\<lparr>defaults = Some [''errors=remount-ro''], allow = Some [''errors=remount-ro'', ''ro''],
            allow_uid_self = None, allow_gid_self = None\<rparr>"
  let ?any = "\<lparr>defaults = Some [''noatime''], allow = Some [''ro'', ''noatime''],
            allow_uid_self = None, allow_gid_self = None\<rparr>"
  have origins: "apply_origins union_daemon example_block (Some ''ext4'') = Some (?fsmo, ?any)"
    by (simp add: eval_defs union_daemon_def Let_def)
  from general_appended_to_specific [OF origins]
  obtain r where r: "compute_mount_options_for_fs_type union_daemon example_block (Some ''ext4'') =
      Some r"
    and entries: "strv_entries (allow r) =
             strv_entries (allow ?fsmo) @
             filter (\<lambda>s. s \<notin> set (strv_entries (allow ?fsmo))) (strv_entries (allow ?any))"
    and single: "\<forall>x y. defaults ?fsmo = Some [x] \<and> defaults ?any = Some [y] \<longrightarrow>
              defaults r = Some (if x = y then [x] else [x, y])"
    by blast
  from single have "defaults r = Some [''errors=remount-ro'', ''noatime'']"
    by simp
  moreover from entries have "strv_entries (allow r) = [''errors=remount-ro'', ''ro'', ''noatime'']"
    by (simp add: strv_entries_def)
  ultimately show ?thesis using origins r by blast
qed

subsection \<open>Defaults of a filesystem at a shared location\<close>







subsection \<open>The end-to-end scenario\<close>

text \<open>
  Claim C8, as stated, fails: the default tokens \<^verbatim>\<open>uid\<close> and \<^verbatim>\<open>gid\<close> have no
  \<^verbatim>\<open>=\<close>, so they are emitted without a value and without substitution, and the policy
  of the scenario does not allow the bare option \<^verbatim>\<open>uid\<close>. The request is refused.
\<close>

theorem end_to_end_scenario_counterexample:
  "udisks_linux_calculate_mount_options example_sys scenario_daemon example_block 1000
     (Some ''vfat'') None =
   Some (Inl (UDISKS_ERROR_OPTION_NOT_PERMITTED,
              ''Mount option `uid'' @ [CHR 0x27] @ '' is not allowed''))"
  by (simp add: eval_defs scenario_daemon_def g_ascii_strdown_vfat Let_def)

text \<open>
  Claim C8, amended. With the general defaults written \<^verbatim>\<open>uid=\<close>, \<^verbatim>\<open>gid=\<close>,
  \<^verbatim>\<open>shortname=mixed\<close>, the general self-match lists \<^verbatim>\<open>allow_uid_self = uid\<close> and
  \<^verbatim>\<open>allow_gid_self = gid\<close>, the \<^verbatim>\<open>vfat\<close> allow list of the scenario, no policy for
  the device, the requester 1000 with the primary group 1000 and no option from the
  caller, the result is
  \<^verbatim>\<open>uhelper=udisks2,nodev,nosuid,uid=1000,gid=1000,shortname=mixed\<close>.
\<close>

theorem end_to_end_scenario_self:
  "udisks_linux_calculate_mount_options example_sys scenario_daemon_self example_block 1000
     (Some ''vfat'') None =
   Some (Inr ''uhelper=udisks2,nodev,nosuid,uid=1000,gid=1000,shortname=mixed'')"
  by (simp add: eval_defs scenario_daemon_self_def g_ascii_strdown_vfat Let_def)

subsection \<open>Splitting the option string of the caller\<close>

lemma split_commas_not_Nil [simp]: "split_commas s \<noteq> []"
  by (induction s) (auto split: list.splits)

lemma split_commas_no_comma: "CHR '','' \<notin> set s \<Longrightarrow> split_commas s = [s]"
  by (induction s) auto

lemma split_commas_append:
  "split_commas (a @ CHR '','' # b) = split_commas a @ split_commas b"
proof (induction a)
  case Nil
  show ?case by (cases "split_commas b") simp_all
next
  case (Cons c a)
  show ?case
  proof (cases "c = CHR '',''")
    case True
    then show ?thesis using Cons by simp
  next
    case False
    obtain t ts where ts: "split_commas a = t # ts"
      by (cases "split_commas a") simp_all
    from False Cons ts show ?thesis by simp
  qed
qed

lemma given_option_sentinel:
  assumes "CHR ''='' \<notin> set name"
  shows "given_option (name @ ''='' @ VARIANT_NULL_STRING) = (name, VARIANT_NULL_STRING)"
    and "given_option name = (name, VARIANT_NULL_STRING)"
proof -
  have "takeWhile (\<lambda>c. c \<noteq> CHR ''='') (name @ CHR ''='' # r) = name" for r
    using assms by (induction name) auto
  moreover have "dropWhile (\<lambda>c. c \<noteq> CHR ''='') (name @ CHR ''='' # r) = CHR ''='' # r" for r
    using assms by (induction name) auto
  ultimately show "given_option (name @ ''='' @ VARIANT_NULL_STRING) = (name, VARIANT_NULL_STRING)"
    by (simp add: given_option_def strchr_eq_def)
  show "given_option name = (name, VARIANT_NULL_STRING)"
    using assms by (simp add: given_option_def strchr_eq_def)
qed

lemma split_commas_around:
  assumes "CHR '','' \<notin> set tok"
    and "pre = [] \<or> last pre = CHR '',''" and "post = [] \<or> hd post = CHR '',''"
  shows "split_commas (pre @ tok @ post) =
           (if pre = [] then [] else split_commas (butlast pre)) @ [tok] @
           (if post = [] then [] else split_commas (tl post))"
proof -
  have post: "split_commas (tok @ post) =
                [tok] @ (if post = [] then [] else split_commas (tl post))"
  proof (cases post)
    case Nil
    then show ?thesis using assms(1) by (simp add: split_commas_no_comma)
  next
    case (Cons c post')
    with assms(3) have "post = CHR '','' # post'" by simp
    then show ?thesis using assms(1) by (simp add: split_commas_append split_commas_no_comma)
  qed
  show ?thesis
  proof (cases "pre = []")
    case True
    then show ?thesis using post by simp
  next
    case False
    with assms(2) have "pre = butlast pre @ [CHR '','']"
      by (metis append_butlast_last_id)
    then have "pre @ tok @ post = butlast pre @ CHR '','' # (tok @ post)"
      by (metis append.assoc append_Cons append_Nil)
    then have "split_commas (pre @ tok @ post) =
               split_commas (butlast pre) @ split_commas (tok @ post)"
      by (simp only: split_commas_append)
    then show ?thesis using False post by simp
  qed
qed

subsection \<open>The sentinel for an option without a value\<close>

text \<open>
  Claim C10. An option of the caller whose value is the byte 0x01 gives the same entry as
  the option without a value, so the whole call returns the same result for both
  strings; in the validation the entry is evaluated with no value and, when allowed,
  appended as the bare name.
\<close>

theorem sentinel_value_is_no_value:
  assumes name: "name \<noteq> []" "CHR ''='' \<notin> set name" "CHR '','' \<notin> set name"
    and pre: "pre = [] \<or> last pre = CHR '',''"
    and post: "post = [] \<or> hd post = CHR '',''"
  shows "given_option (name @ ''='' @ VARIANT_NULL_STRING) = given_option name \<and>
    udisks_linux_calculate_mount_options sys daemon block caller_uid fs_type
       (Some (pre @ (name @ ''='' @ VARIANT_NULL_STRING) @ post)) =
     udisks_linux_calculate_mount_options sys daemon block caller_uid fs_type
       (Some (pre @ name @ post)) \<and>
    validate_options sys fsmo caller_uid (given_option (name @ ''='' @ VARIANT_NULL_STRING) # rest) str =
      (if \<not> is_mount_option_allowed sys fsmo name None caller_uid
       then Inl (UDISKS_ERROR_OPTION_NOT_PERMITTED,
                 ''Mount option `'' @ name @ [CHR 0x27] @ '' is not allowed'')
       else validate_options sys fsmo caller_uid rest (str @ '','' @ name))"
proof -
  let ?tok = "name @ ''='' @ VARIANT_NULL_STRING"
  note sentinel = given_option_sentinel [OF name(2)]
  have same: "given_option ?tok = given_option name"
    by (simp only: sentinel)
  have tok: "CHR '','' \<notin> set ?tok"
    using name(3) by (simp add: VARIANT_NULL_STRING_def)
  let ?before = "if pre = [] then [] else split_commas (butlast pre)"
  let ?after = "if post = [] then [] else split_commas (tl post)"
  have ne: "(pre @ ?tok @ post = []) = False" "(pre @ name @ post = []) = False"
    using name(1) by simp_all
  have "g_strsplit_comma (pre @ ?tok @ post) = ?before @ [?tok] @ ?after"
    by (simp only: g_strsplit_comma_def ne if_False split_commas_around [OF tok pre post])
  moreover have "g_strsplit_comma (pre @ name @ post) = ?before @ [name] @ ?after"
    by (simp only: g_strsplit_comma_def ne if_False split_commas_around [OF name(3) pre post])
  ultimately have "map given_option (g_strsplit_comma (pre @ ?tok @ post)) =
        map given_option (g_strsplit_comma (pre @ name @ post))"
    by (simp only: map_append list.map same)
  then have "prepend_default_mount_options sys f caller_uid (Some (pre @ ?tok @ post)) sh =
             prepend_default_mount_options sys f caller_uid (Some (pre @ name @ post)) sh"
    for f sh
    by (simp add: prepend_default_mount_options_def split: option.splits)
  then have calc: "udisks_linux_calculate_mount_options sys daemon block caller_uid fs_type
       (Some (pre @ ?tok @ post)) =
     udisks_linux_calculate_mount_options sys daemon block caller_uid fs_type
       (Some (pre @ name @ post))"
    by (simp add: udisks_linux_calculate_mount_options_def)
  have val: "validate_options sys fsmo caller_uid (given_option ?tok # rest) str =
      (if \<not> is_mount_option_allowed sys fsmo name None caller_uid
       then Inl (UDISKS_ERROR_OPTION_NOT_PERMITTED,
                 ''Mount option `'' @ name @ [CHR 0x27] @ '' is not allowed'')
       else validate_options sys fsmo caller_uid rest (str @ '','' @ name))"
    unfolding sentinel(1)
    using name(3)
    by (simp add: variant_value_def not_allowed_error_def apostrophe_def option_text_def)
  from same calc val show ?thesis by blast
qed

theorem sentinel_value_is_no_value_witness:
  "udisks_linux_calculate_mount_options example_sys union_daemon example_block 1000
     (Some ''ext4'') (Some (''x-a,'' @ (''ro'' @ ''='' @ VARIANT_NULL_STRING) @ '',x-b'')) =
   udisks_linux_calculate_mount_options example_sys union_daemon example_block 1000
     (Some ''ext4'') (Some ''x-a,ro,x-b'') \<and>
   udisks_linux_calculate_mount_options example_sys union_daemon example_block 1000
     (Some ''ext4'') (Some ''x-a,ro,x-b'') =
     Some (Inr ''uhelper=udisks2,nodev,nosuid,errors=remount-ro,noatime,x-a,ro,x-b'')"
proof -
  have name: "''ro'' \<noteq> []" "CHR ''='' \<notin> set ''ro''" "CHR '','' \<notin> set ''ro''"
    by simp_all
  have pre: "''x-a,'' = [] \<or> last ''x-a,'' = CHR '',''" by simp
  have post: "'',x-b'' = [] \<or> hd '',x-b'' = CHR '',''" by simp
  have same: "udisks_linux_calculate_mount_options example_sys union_daemon example_block 1000
     (Some ''ext4'') (Some (''x-a,'' @ (''ro'' @ ''='' @ VARIANT_NULL_STRING) @ '',x-b'')) =
   udisks_linux_calculate_mount_options example_sys union_daemon example_block 1000
     (Some ''ext4'') (Some (''x-a,'' @ ''ro'' @ '',x-b''))"
    by (rule sentinel_value_is_no_value [OF name pre post, THEN conjunct2, THEN conjunct1])
  have run: "udisks_linux_calculate_mount_options example_sys union_daemon example_block 1000
     (Some ''ext4'') (Some ''x-a,ro,x-b'') =
     Some (Inr ''uhelper=udisks2,nodev,nosuid,errors=remount-ro,noatime,x-a,ro,x-b'')"
    by (simp add: eval_defs union_daemon_def g_ascii_strdown_ext4 Let_def)
  from same run show ?thesis by simp
qed

end
